theory Spec2Isabelle
  imports Complex_Main
begin

section \<open>JavaScript strings and the two regular expressions of the modules\<close>

text \<open>
  A JavaScript string is a sequence of code units; it is modelled as a \<^typ>\<open>string\<close>, so
  the code units of the model are the 256 values of \<^typ>\<open>char\<close> (Latin-1). Of the
  characters that \<^verbatim>\<open>String.prototype.trim\<close> and the regular-expression class
  \<^verbatim>\<open>\s\<close> treat as white space, these seven lie in that range: TAB, LF, VT, FF, CR,
  SPACE and NBSP.
\<close>

definition isWhiteSpace :: "char \<Rightarrow> bool" where
  "isWhiteSpace c \<longleftrightarrow>
     c = CHR 0x09 \<or> c = CHR 0x0A \<or> c = CHR 0x0B \<or> c = CHR 0x0C \<or> c = CHR 0x0D \<or>
     c = CHR 0x20 \<or> c = CHR 0xA0"

text \<open>\<^verbatim>\<open>s.trim()\<close>: white space removed at both ends.\<close>

definition trim :: "string \<Rightarrow> string" where
  "trim s = rev (dropWhile isWhiteSpace (rev (dropWhile isWhiteSpace s)))"

text \<open>
  \<^verbatim>\<open>s.split('\n')\<close>: the pieces between line feeds; the empty string gives one empty
  piece, and a trailing line feed gives a last empty piece.
\<close>

fun split_lines :: "string \<Rightarrow> string list" where
  "split_lines [] = [[]]"
| "split_lines (c # cs) =
     (if c = CHR 0x0A then [] # split_lines cs
      else (case split_lines cs of
              [] \<Rightarrow> [[c]]
            | l # ls \<Rightarrow> (c # l) # ls))"

text \<open>\<^verbatim>\<open>s.startsWith(p)\<close>, case-sensitive.\<close>

definition startsWith :: "string \<Rightarrow> string \<Rightarrow> bool" where
  "startsWith s p \<longleftrightarrow> take (length p) s = p"

text \<open>
  Case folding. The regular expressions carry the flag \<^verbatim>\<open>i\<close> without \<^verbatim>\<open>u\<close>, where
  two code units match when their canonical forms (the upper-case forms) agree and a
  code unit from 128 on never folds to an ASCII one. Every pattern of the modules is made of
  ASCII capitals, \<^verbatim>\<open>_\<close> and \<^verbatim>\<open>:\<close>, so only the folding of ASCII letters can be
  observed: \<open>a\<close>..\<open>z\<close> go to \<open>A\<close>..\<open>Z\<close>, every other code unit is left alone.
  \<^verbatim>\<open>toUpperCase\<close> is applied by the modules to a captured token only, which is made of
  such code units.
\<close>

fun fold_with :: "(char \<times> char) list \<Rightarrow> char \<Rightarrow> char" where
  "fold_with [] c = c"
| "fold_with ((lower, upper) # table) c = (if c = lower then upper else fold_with table c)"

definition canonicalize :: "char \<Rightarrow> char" where
  "canonicalize c =
     fold_with (zip ''abcdefghijklmnopqrstuvwxyz'' ''ABCDEFGHIJKLMNOPQRSTUVWXYZ'') c"

definition toUpperCase :: "string \<Rightarrow> string" where
  "toUpperCase s = map canonicalize s"

text \<open>The pattern \<open>p\<close> matches, ignoring case, at the start of \<open>s\<close>.\<close>

fun ci_prefix :: "string \<Rightarrow> string \<Rightarrow> bool" where
  "ci_prefix [] s = True"
| "ci_prefix (p # ps) [] = False"
| "ci_prefix (p # ps) (c # cs) = (canonicalize p = canonicalize c \<and> ci_prefix ps cs)"

text \<open>
  The status expression \<^verbatim>\<open>/FIELD:\s*(T1|T2|T3)/i\<close>, as a backtracking matcher.
  \<open>match_alternatives\<close> is the group: the alternatives are tried from left to right
  and the first one that matches gives the captured text. \<open>match_spaces_then\<close> is the
  greedy \<^verbatim>\<open>\s*\<close> before the group: it first takes one more white-space character, and
  gives it back when the rest fails. \<open>match_status\<close> tries the start positions from
  left to right, as \<^verbatim>\<open>String.prototype.match\<close> does. The result is capture group 1.
\<close>

fun match_alternatives :: "string list \<Rightarrow> string \<Rightarrow> string option" where
  "match_alternatives [] s = None"
| "match_alternatives (t # ts) s =
     (if ci_prefix t s then Some (take (length t) s) else match_alternatives ts s)"

fun match_spaces_then :: "string list \<Rightarrow> string \<Rightarrow> string option" where
  "match_spaces_then ts [] = match_alternatives ts []"
| "match_spaces_then ts (c # cs) =
     (if isWhiteSpace c then
        (case match_spaces_then ts cs of
           Some g \<Rightarrow> Some g
         | None \<Rightarrow> match_alternatives ts (c # cs))
      else match_alternatives ts (c # cs))"

definition match_here :: "string \<Rightarrow> string list \<Rightarrow> string \<Rightarrow> string option" where
  "match_here field ts s =
     (if ci_prefix field s then match_spaces_then ts (drop (length field) s) else None)"

fun match_status :: "string \<Rightarrow> string list \<Rightarrow> string \<Rightarrow> string option" where
  "match_status field ts [] = match_here field ts []"
| "match_status field ts (c # cs) =
     (case match_here field ts (c # cs) of
        Some g \<Rightarrow> Some g
      | None \<Rightarrow> match_status field ts cs)"

text \<open>
  The section expression \<^verbatim>\<open>/MARKER:(.*?)(?=STOP1:|STOP2:|$)/is\<close>. With the flag
  \<^verbatim>\<open>s\<close> the dot matches every code unit, line feeds included; without the flag
  \<^verbatim>\<open>m\<close> the \<^verbatim>\<open>$\<close> matches at the end of the text only. \<open>lazy_until\<close> is the lazy
  group followed by the lookahead: the shortest text after which a stop marker or the end
  of the text follows. \<open>match_section\<close> tries the start positions from left to right;
  once the marker is found the match cannot fail. The result is capture group 1.
\<close>

fun lazy_until :: "string list \<Rightarrow> string \<Rightarrow> string" where
  "lazy_until stops [] = []"
| "lazy_until stops (c # cs) =
     (if \<exists>stop \<in> set stops. ci_prefix stop (c # cs) then []
      else c # lazy_until stops cs)"

fun match_section :: "string \<Rightarrow> string list \<Rightarrow> string \<Rightarrow> string option" where
  "match_section marker stops [] =
     (if ci_prefix marker [] then Some (lazy_until stops (drop (length marker) [])) else None)"
| "match_section marker stops (c # cs) =
     (if ci_prefix marker (c # cs)
      then Some (lazy_until stops (drop (length marker) (c # cs)))
      else match_section marker stops cs)"

section \<open>Data model (interfaces/ModuleInterfaces)\<close>

text \<open>
  Optional fields are options. A JavaScript number is a double; the numbers of this
  program are passed on and never computed with, so \<^typ>\<open>int\<close> stands for the token
  counts and \<^typ>\<open>rat\<close> for the sampling parameters (NaN and the infinities are left
  out).
\<close>

datatype ModuleStatus = Success | Warning | Error

record ModuleMetadata =
  timestamp :: string
  promptUsed :: string
  modelVersion :: string

record ModuleResult =
  moduleId :: string
  status :: ModuleStatus
  report :: string
  recommendedFixes :: "string list option"
  metadata :: ModuleMetadata

datatype ContentType = Book | Article | Essay | Other

record ContentInput =
  content :: "string option"
  title :: "string option"
  author :: "string option"
  targetAudience :: "string option"
  contentType :: "ContentType option"
  additionalContext :: "(string \<times> string) list option"

record ModuleOptions =
  verbose :: "bool option"
  maxTokens :: "int option"
  model :: "string option"
  customPrompt :: "string option"

record WorkflowOptions =
  modules :: "string list"
  sequential :: "bool option"
  stopOnError :: "bool option"
  options :: "(string \<rightharpoonup> ModuleOptions) option"

record WorkflowResult =
  workflowId :: string
  workflow_timestamp :: string
  workflow_status :: ModuleStatus
  results :: "ModuleResult list"
  summary :: string

text \<open>The three values that a module parses out of a completion.\<close>

record ParseResult =
  parsed_report :: string
  parsed_status :: ModuleStatus
  parsed_fixes :: "string list"

text \<open>The text of a status (the string literals of \<^verbatim>\<open>ModuleStatus\<close>) and of a content type.\<close>

fun status_text :: "ModuleStatus \<Rightarrow> string" where
  "status_text Success = ''success''"
| "status_text Warning = ''warning''"
| "status_text Error = ''error''"

fun contentType_text :: "ContentType \<Rightarrow> string" where
  "contentType_text Book = ''book''"
| "contentType_text Article = ''article''"
| "contentType_text Essay = ''essay''"
| "contentType_text Other = ''other''"

section \<open>JavaScript values: exceptions, truthiness, defaults\<close>

text \<open>
  A thrown value is an \<^verbatim>\<open>Error\<close> object with its message, or any other value with its
  \<^verbatim>\<open>String(...)\<close> rendering. \<open>exn_message\<close> is the expression
  \<^verbatim>\<open>error instanceof Error ? error.message : String(error)\<close>.
\<close>

datatype js_exn = ErrorObject string | OtherValue string

fun exn_message :: "js_exn \<Rightarrow> string" where
  "exn_message (ErrorObject msg) = msg"
| "exn_message (OtherValue shown) = shown"

text \<open>
  \<^verbatim>\<open>x || d\<close> on an optional string and on an optional number: the default is taken when
  the value is missing and also when it is falsy (the empty string, zero).
\<close>

definition str_or :: "string option \<Rightarrow> string \<Rightarrow> string" where
  "str_or x d = (case x of None \<Rightarrow> d | Some s \<Rightarrow> if s = [] then d else s)"

definition num_or :: "'a::zero option \<Rightarrow> 'a \<Rightarrow> 'a" where
  "num_or x d = (case x of None \<Rightarrow> d | Some n \<Rightarrow> if n = 0 then d else n)"

text \<open>\<^verbatim>\<open>if (flag)\<close> on an optional boolean: a missing flag is falsy.\<close>

definition truthy :: "bool option \<Rightarrow> bool" where
  "truthy flag = (case flag of None \<Rightarrow> False | Some b \<Rightarrow> b)"

text \<open>Decimal rendering of a natural number (a length or a count in a template literal).\<close>

fun string_of_nat :: "nat \<Rightarrow> string" where
  "string_of_nat n =
     (if n < 10 then [''0123456789'' ! n]
      else string_of_nat (n div 10) @ [''0123456789'' ! (n mod 10)])"

declare string_of_nat.simps [simp del]

section \<open>The world outside the program\<close>

text \<open>
  The program reads the clock (\<^verbatim>\<open>new Date().toISOString()\<close>), draws identifiers
  (\<^verbatim>\<open>uuidv4()\<close>), calls the completion provider
  (\<^verbatim>\<open>openai.chat.completions.create\<close>) and appends to the log of the \<^verbatim>\<open>Logger\<close>
  singleton. The collaborators are parameters, collected in \<open>env\<close>: the n-th reading of
  the clock, the n-th identifier, and the provider, which answers a request in the light of
  the requests made before. The provider either fails with a thrown value or answers; the
  answer is the text \<^verbatim>\<open>response.choices[0]?.message?.content\<close> when there is one.
  Whatever is thrown inside the \<^verbatim>\<open>try\<close> of \<^verbatim>\<open>generateCompletion\<close> takes the
  same path, so a malformed response is a failure too.

  The \<open>world\<close> is what the program changes: the log, the requests sent to the provider,
  and how often the clock and the identifier source have been read. Console output is not
  modelled.
\<close>

record ai_request =
  request_model :: string
  messages :: "(string \<times> string) list"
  max_tokens :: int
  request_temperature :: rat
  top_p :: rat
  frequency_penalty :: rat
  presence_penalty :: rat

datatype LogLevel = DEBUG | INFO | WARNING | ERROR

record LogEntry =
  log_timestamp :: string
  level :: LogLevel
  log_moduleId :: string
  message :: string
  data :: "js_exn option"

record env =
  isoTime :: "nat \<Rightarrow> string"
  uuidv4 :: "nat \<Rightarrow> string"
  openai :: "ai_request list \<Rightarrow> ai_request \<Rightarrow> js_exn + string option"

record world =
  logs :: "LogEntry list"
  ai_calls :: "ai_request list"
  clock_reads :: nat
  uuid_reads :: nat

definition new_Date :: "env \<Rightarrow> world \<Rightarrow> string \<times> world" where
  "new_Date e w = (isoTime e (clock_reads w), w\<lparr>clock_reads := clock_reads w + 1\<rparr>)"

definition new_uuid :: "env \<Rightarrow> world \<Rightarrow> string \<times> world" where
  "new_uuid e w = (uuidv4 e (uuid_reads w), w\<lparr>uuid_reads := uuid_reads w + 1\<rparr>)"

subsection \<open>Logger\<close>

definition log :: "env \<Rightarrow> LogLevel \<Rightarrow> string \<Rightarrow> string \<Rightarrow> js_exn option \<Rightarrow> world \<Rightarrow> world" where
  "log e lvl mid msg d w =
     (let (now, w1) = new_Date e w;
          logEntry = \<lparr>log_timestamp = now, level = lvl, log_moduleId = mid, message = msg, data = d\<rparr>
      in w1\<lparr>logs := logs w1 @ [logEntry]\<rparr>)"

definition logger_info :: "env \<Rightarrow> string \<Rightarrow> string \<Rightarrow> world \<Rightarrow> world" where
  "logger_info e mid msg w = log e INFO mid msg None w"

definition logger_warning :: "env \<Rightarrow> string \<Rightarrow> string \<Rightarrow> world \<Rightarrow> world" where
  "logger_warning e mid msg w = log e WARNING mid msg None w"

definition logger_error :: "env \<Rightarrow> string \<Rightarrow> string \<Rightarrow> js_exn option \<Rightarrow> world \<Rightarrow> world" where
  "logger_error e mid msg d w = log e ERROR mid msg d w"

subsection \<open>AIService\<close>

record AIServiceOptions =
  ai_model :: "string option"
  ai_maxTokens :: "int option"
  temperature :: "rat option"
  topP :: "rat option"
  frequencyPenalty :: "rat option"
  presencePenalty :: "rat option"

definition convertModuleOptionsToAIOptions :: "ModuleOptions option \<Rightarrow> AIServiceOptions" where
  "convertModuleOptionsToAIOptions moduleOptions =
     \<lparr>ai_model = Some (str_or (Option.bind moduleOptions model) ''gpt-4''),
      ai_maxTokens = Some (num_or (Option.bind moduleOptions maxTokens) 1000),
      temperature = Some (7 / 10),
      topP = Some 1,
      frequencyPenalty = Some 0,
      presencePenalty = Some 0\<rparr>"

text \<open>
  \<open>generateCompletion\<close> makes exactly one request to the provider each time it is called,
  so \<open>ai_calls\<close> also counts its calls; the prompt is the content of the one message of
  the request. A failure of the provider is logged and thrown again as a new \<^verbatim>\<open>Error\<close>.
\<close>

definition generateCompletion ::
  "env \<Rightarrow> string \<Rightarrow> AIServiceOptions \<Rightarrow> world \<Rightarrow> (js_exn + string) \<times> world" where
  "generateCompletion e prompt opts w =
     (let w1 = logger_info e ''AIService''
                 (''Generating completion with model: '' @ str_or (ai_model opts) ''default'') w;
          request =
            \<lparr>request_model = str_or (ai_model opts) ''gpt-4'',
             messages = [(''user'', prompt)],
             max_tokens = num_or (ai_maxTokens opts) 1000,
             request_temperature = num_or (temperature opts) (7 / 10),
             top_p = num_or (topP opts) 1,
             frequency_penalty = num_or (frequencyPenalty opts) 0,
             presence_penalty = num_or (presencePenalty opts) 0\<rparr>;
          response = openai e (ai_calls w1) request;
          w2 = w1\<lparr>ai_calls := ai_calls w1 @ [request]\<rparr>
      in case response of
           Inr answer \<Rightarrow>
             (let completion = str_or answer '''';
                  w3 = logger_info e ''AIService'' ''Completion generated successfully'' w2
              in (Inr completion, w3))
         | Inl err \<Rightarrow>
             (let w3 = logger_error e ''AIService'' ''Error generating completion'' (Some err) w2
              in (Inl (ErrorObject (''Failed to generate completion: '' @ exn_message err)), w3)))"

section \<open>Parsing a completion (\<^verbatim>\<open>parseFactCheckResults\<close> and its nine siblings)\<close>

text \<open>
  The ten parse methods have one body and differ in the literals of their two regular
  expressions and of their \<^verbatim>\<open>switch\<close>: the field name, the three tokens, the marker of
  the section that is mined for recommended fixes and the stop markers of that section.
  \<open>parseCompletion\<close> is that body, statement by statement, with the literals as parameters.
\<close>

definition parseCompletion ::
  "string \<Rightarrow> string \<Rightarrow> string \<Rightarrow> string \<Rightarrow> string \<Rightarrow> string list \<Rightarrow> string \<Rightarrow> ParseResult" where
  "parseCompletion field t1 t2 t3 marker stops completion =
     (let overallAssessmentMatch = match_status field [t1, t2, t3] completion;
          overallAssessment =
            (case overallAssessmentMatch of Some g \<Rightarrow> toUpperCase g | None \<Rightarrow> ''UNKNOWN'');
          recommendationsMatch = match_section marker stops completion;
          recommendationsText =
            (case recommendationsMatch of Some g \<Rightarrow> trim g | None \<Rightarrow> '''');
          recommendedFixes =
            filter (\<lambda>line. length line > 0 \<and> \<not> startsWith line marker)
              (map trim (split_lines recommendationsText));
          status =
            (if overallAssessment = t1 then Success
             else if overallAssessment = t2 then Warning
             else if overallAssessment = t3 then Error
             else Warning)
      in \<lparr>parsed_report = completion, parsed_status = status, parsed_fixes = recommendedFixes\<rparr>)"

section \<open>Modules (utils/BaseModule and the ten module classes)\<close>

text \<open>
  The ten module classes extend \<^verbatim>\<open>BaseModule\<close>. Their \<^verbatim>\<open>process\<close> methods are one
  text up to the string literals of the log messages, of the report and of the recommended
  fixes, and up to the name of the parse method. Their \<^verbatim>\<open>preparePrompt\<close> methods
  come in three forms, and their parse methods are one text up to the literals of the two
  regular expressions and of the \<^verbatim>\<open>switch\<close>. A class is therefore given by the members
  that differ: its id and description, the literals of \<^verbatim>\<open>process\<close>, its default
  prompt, the form of its \<^verbatim>\<open>preparePrompt\<close>, and the literals of its parse method
  (the status field, the three tokens in the order of the \<^verbatim>\<open>switch\<close>, the marker of
  the section of recommended fixes and its stop markers). \<open>process\<close>,
  \<open>preparePrompt\<close> and \<open>parseResults\<close> below are the common texts.
\<close>

datatype prompt_form = PlainForm | AudienceForm | TraceForm

record module_class =
  class_moduleId :: string
  class_description :: string
  invalid_input_fix :: string
  start_message :: string
  completed_message :: string
  error_message :: string
  retry_fix :: string
  getDefaultPrompt :: string
  prompt_form :: prompt_form
  status_field :: string
  token_success :: string
  token_warning :: string
  token_error :: string
  fixes_marker :: string
  fixes_stops :: "string list"

subsection \<open>BaseModule\<close>

definition createMetadata ::
  "env \<Rightarrow> module_class \<Rightarrow> ModuleOptions option \<Rightarrow> world \<Rightarrow> ModuleMetadata \<times> world" where
  "createMetadata e this opts w =
     (let (now, w1) = new_Date e w
      in (\<lparr>timestamp = now,
           promptUsed = str_or (Option.bind opts customPrompt) (getDefaultPrompt this),
           modelVersion = str_or (Option.bind opts model) ''default-model''\<rparr>, w1))"

text \<open>
  \<open>createResult\<close>: the field \<open>recommendedFixes\<close> is set only when a list is given and
  is not empty; an absent field is \<open>None\<close>.
\<close>

definition createResult ::
  "env \<Rightarrow> module_class \<Rightarrow> ModuleStatus \<Rightarrow> string \<Rightarrow> string list option \<Rightarrow>
   ModuleMetadata option \<Rightarrow> world \<Rightarrow> ModuleResult \<times> world" where
  "createResult e this st rep fixes mdata w =
     (let (md, w1) = (case mdata of Some m \<Rightarrow> (m, w) | None \<Rightarrow> createMetadata e this None w);
          result = \<lparr>moduleId = class_moduleId this, status = st, report = rep,
                    recommendedFixes = None, metadata = md\<rparr>;
          result1 = (case fixes of
                       Some (f # fs) \<Rightarrow> result\<lparr>recommendedFixes := Some (f # fs)\<rparr>
                     | _ \<Rightarrow> result);
          w2 = logger_info e (class_moduleId this)
                 (''Module processing completed with status: '' @ status_text st) w1
      in (result1, w2))"

text \<open>
  \<open>validateInput\<close>: the input is refused when it is missing, when its content is missing
  or empty (falsy), and when its content is white space only.
\<close>

definition validateInput :: "env \<Rightarrow> module_class \<Rightarrow> ContentInput option \<Rightarrow> world \<Rightarrow> bool \<times> world" where
  "validateInput e this input w =
     (if input = None \<or> Option.bind input content = None \<or> Option.bind input content = Some ''''
         \<or> Option.bind (Option.bind input content) (\<lambda>c. Some (trim c)) = Some ''''
      then (False, logger_error e (class_moduleId this) ''Invalid input: content is required'' None w)
      else (True, w))"

subsection \<open>The three forms of preparePrompt\<close>

text \<open>
  A template literal renders a missing value as \<^verbatim>\<open>undefined\<close>; \<open>process\<close> calls
  \<open>preparePrompt\<close> after validation only, when the content is there.
\<close>

definition template_text :: "string option \<Rightarrow> string" where
  "template_text x = (case x of None \<Rightarrow> ''undefined'' | Some s \<Rightarrow> s)"

definition newline :: string where
  "newline = [CHR 0x0A]"

text \<open>FactCheckLayer, HallucinationFilter and PlotLogicBuilder.\<close>

definition preparePrompt_plain ::
  "env \<Rightarrow> string \<Rightarrow> ContentInput \<Rightarrow> ModuleOptions option \<Rightarrow> world \<Rightarrow> string \<times> world" where
  "preparePrompt_plain e defaultPrompt input opts w =
     (let customPrompt = str_or (Option.bind opts customPrompt) defaultPrompt
      in (newline @ customPrompt @ newline @ newline
          @ ''CONTENT TO ANALYZE:'' @ newline
          @ ''Title: '' @ str_or (title input) ''Untitled'' @ newline
          @ ''Author: '' @ str_or (author input) ''Unknown'' @ newline
          @ ''Content Type: '' @ str_or (map_option contentType_text (contentType input)) ''Unknown''
          @ newline @ newline
          @ template_text (content input) @ newline
          @ ''    '', w))"

text \<open>
  ChapterImageGallery, EthicalGuardian, SimulatedFeedbackReader, SmartExportEngine,
  ToneAndAudienceModulator and WYSIWYGLayoutPreview add the target audience.
\<close>

definition preparePrompt_audience ::
  "env \<Rightarrow> string \<Rightarrow> ContentInput \<Rightarrow> ModuleOptions option \<Rightarrow> world \<Rightarrow> string \<times> world" where
  "preparePrompt_audience e defaultPrompt input opts w =
     (let customPrompt = str_or (Option.bind opts customPrompt) defaultPrompt
      in (newline @ customPrompt @ newline @ newline
          @ ''CONTENT TO ANALYZE:'' @ newline
          @ ''Title: '' @ str_or (title input) ''Untitled'' @ newline
          @ ''Author: '' @ str_or (author input) ''Unknown'' @ newline
          @ ''Content Type: '' @ str_or (map_option contentType_text (contentType input)) ''Unknown''
          @ newline
          @ ''Target Audience: '' @ str_or (targetAudience input) ''General'' @ newline @ newline
          @ template_text (content input) @ newline
          @ ''    '', w))"

text \<open>PromptTraceability draws a trace id and reads the clock.\<close>

definition preparePrompt_trace ::
  "env \<Rightarrow> string \<Rightarrow> ContentInput \<Rightarrow> ModuleOptions option \<Rightarrow> world \<Rightarrow> string \<times> world" where
  "preparePrompt_trace e defaultPrompt input opts w =
     (let customPrompt = str_or (Option.bind opts customPrompt) defaultPrompt;
          (traceId, w1) = new_uuid e w;
          (now, w2) = new_Date e w1
      in (newline @ customPrompt @ newline @ newline
          @ ''CONTENT TO ANALYZE:'' @ newline
          @ ''Title: '' @ str_or (title input) ''Untitled'' @ newline
          @ ''Author: '' @ str_or (author input) ''Unknown'' @ newline
          @ ''Content Type: '' @ str_or (map_option contentType_text (contentType input)) ''Unknown''
          @ newline
          @ ''Trace ID: '' @ traceId @ newline
          @ ''Timestamp: '' @ now @ newline
          @ ''Model: '' @ str_or (Option.bind opts model) ''default-model'' @ newline @ newline
          @ template_text (content input) @ newline
          @ ''    '', w2))"

text \<open>The \<^verbatim>\<open>preparePrompt\<close> and the parse method of a class.\<close>

definition preparePrompt ::
  "env \<Rightarrow> module_class \<Rightarrow> ContentInput \<Rightarrow> ModuleOptions option \<Rightarrow> world \<Rightarrow> string \<times> world" where
  "preparePrompt e this input opts w =
     (case prompt_form this of
        PlainForm \<Rightarrow> preparePrompt_plain e (getDefaultPrompt this) input opts w
      | AudienceForm \<Rightarrow> preparePrompt_audience e (getDefaultPrompt this) input opts w
      | TraceForm \<Rightarrow> preparePrompt_trace e (getDefaultPrompt this) input opts w)"

definition parseResults :: "module_class \<Rightarrow> string \<Rightarrow> ParseResult" where
  "parseResults this completion =
     parseCompletion (status_field this) (token_success this) (token_warning this) (token_error this)
       (fixes_marker this) (fixes_stops this) completion"

subsection \<open>process\<close>

text \<open>
  The result is \<open>Inr\<close> of a \<open>ModuleResult\<close>; \<open>Inl\<close> would be an exception leaving
  \<open>process\<close>, which the interface \<^verbatim>\<open>ContentGuardianModule\<close> allows and which these
  classes never produce. A validated input is not missing, so the branch on
  \<^verbatim>\<open>!this.validateInput(input)\<close> is written as a case on the input when valid. The
  arguments of a call are evaluated before the call, so the metadata (and its reading of the
  clock) comes before the log entry of \<open>createResult\<close>.
\<close>

definition process ::
  "env \<Rightarrow> module_class \<Rightarrow> ContentInput option \<Rightarrow> ModuleOptions option \<Rightarrow> world \<Rightarrow>
   (js_exn + ModuleResult) \<times> world" where
  "process e this input opts w =
     (let (valid, w1) = validateInput e this input w
      in case (if valid then input else None) of
           None \<Rightarrow>
           (let (md, w2) = createMetadata e this opts w1;
                (result, w3) = createResult e this Error ''Invalid input: content is required''
                                 (Some [invalid_input_fix this]) (Some md) w2
            in (Inr result, w3))
         | Some checked \<Rightarrow>
           (let w2 = logger_info e (class_moduleId this) (start_message this) w1;
                (prompt, w3) = preparePrompt e this checked opts w2;
                aiOptions = convertModuleOptionsToAIOptions opts
            in case generateCompletion e prompt aiOptions w3 of
                 (Inr completion, w4) \<Rightarrow>
                   (let parsed = parseResults this completion;
                        w5 = logger_info e (class_moduleId this)
                               (completed_message this @ status_text (parsed_status parsed)) w4;
                        (md, w6) = createMetadata e this opts w5;
                        (result, w7) = createResult e this (parsed_status parsed)
                                         (parsed_report parsed) (Some (parsed_fixes parsed))
                                         (Some md) w6
                    in (Inr result, w7))
               | (Inl err, w4) \<Rightarrow>
                   (let w5 = logger_error e (class_moduleId this) (error_message this) (Some err) w4;
                        (md, w6) = createMetadata e this opts w5;
                        (result, w7) = createResult e this Error
                                         (error_message this @ '': '' @ exn_message err)
                                         (Some [retry_fix this, ''Check API connectivity''])
                                         (Some md) w6
                    in (Inr result, w7))))"

subsection \<open>The ten module classes\<close>

text \<open>
  A template literal is kept line by line: \<open>join_lines\<close> puts a line feed between
  the lines, so a literal that opens with a line break has an empty first line.
\<close>

fun join_lines :: "string list \<Rightarrow> string" where
  "join_lines [] = []"
| "join_lines [l] = l"
| "join_lines (l # m # ls) = l @ newline @ join_lines (m # ls)"

definition FactCheckLayer_defaultPrompt :: string where
  \<open>FactCheckLayer_defaultPrompt = join_lines
    ['''',
     ''You are a fact-checking expert tasked with validating the factual accuracy of the provided content.'',
     ''Analyze the text for:'',
     ''1. Factual claims that can be verified'',
     ''2. Speculative or fabricated statements presented as facts'',
     ''3. Misleading statistics or data'',
     ''4. Unsupported generalizations'',
     '''',
     ''For each identified issue:'',
     ''- Quote the exact text'',
     ''- Explain why it's problematic'',
     ''- Assign a risk level (LOW, MEDIUM, HIGH)'',
     ''- Suggest a correction or clarification if possible'',
     ''- Provide a source for verification when available'',
     '''',
     ''Format your response as follows:'',
     ''SUMMARY: Brief overview of the fact check results'',
     ''ISSUES: List of identified issues with details'',
     ''RECOMMENDATIONS: Suggested fixes or improvements'',
     ''OVERALL_ASSESSMENT: Either "PASS", "PASS_WITH_WARNINGS", or "FAIL"'',
     ''    '']\<close>

definition FactCheckLayer :: module_class where
  "FactCheckLayer =
     \<lparr>class_moduleId = ''FactCheckLayer'',
      class_description = ''Validates facts, detects speculative/fabricated claims, and reports suspicious statements with risk levels'',
      invalid_input_fix = ''Provide non-empty content for fact checking'',
      start_message = ''Starting fact checking process'',
      completed_message = ''Fact checking completed with status: '',
      error_message = ''Error during fact checking'',
      retry_fix = ''Retry the fact checking process'',
      getDefaultPrompt = FactCheckLayer_defaultPrompt,
      prompt_form = PlainForm,
      status_field = ''OVERALL_ASSESSMENT:'',
      token_success = ''PASS'',
      token_warning = ''PASS_WITH_WARNINGS'',
      token_error = ''FAIL'',
      fixes_marker = ''RECOMMENDATIONS:'',
      fixes_stops = [''OVERALL_ASSESSMENT:'']\<rparr>"

definition parseFactCheckResults :: "string \<Rightarrow> ParseResult" where
  "parseFactCheckResults = parseResults FactCheckLayer"

definition EthicalGuardian_defaultPrompt :: string where
  \<open>EthicalGuardian_defaultPrompt = join_lines
    ['''',
     ''You are an ethical content reviewer tasked with identifying potentially problematic language, stereotypes, and biases in the provided content.'',
     ''Analyze the text for:'',
     ''1. Explicit or implicit stereotypes based on gender, race, ethnicity, religion, age, disability, etc.'',
     ''2. Discriminatory language or microaggressions'',
     ''3. Cultural appropriation or insensitivity'',
     ''4. Exclusionary terminology or framing'',
     ''5. Problematic assumptions about readers or subjects'',
     ''6. Ethically questionable perspectives or implications'',
     '''',
     ''For each identified issue:'',
     ''- Quote the exact text'',
     ''- Explain why it's problematic'',
     ''- Suggest more inclusive or balanced alternatives'',
     ''- Consider the context and intent before flagging'',
     '''',
     ''Format your response as follows:'',
     ''SUMMARY: Brief overview of the ethical evaluation'',
     ''ISSUES: List of identified issues with details'',
     ''RECOMMENDATIONS: Suggested fixes or improvements'',
     ''TONE_ASSESSMENT: Evaluation of overall tone and inclusivity'',
     ''OVERALL_RATING: Either "ACCEPTABLE", "NEEDS_REVISION", or "PROBLEMATIC"'',
     ''    '']\<close>

definition EthicalGuardian :: module_class where
  "EthicalGuardian =
     \<lparr>class_moduleId = ''EthicalGuardian'',
      class_description = ''Detects subconscious stereotypes, discriminatory phrases, and ethically questionable language'',
      invalid_input_fix = ''Provide non-empty content for ethical evaluation'',
      start_message = ''Starting ethical evaluation process'',
      completed_message = ''Ethical evaluation completed with status: '',
      error_message = ''Error during ethical evaluation'',
      retry_fix = ''Retry the ethical evaluation process'',
      getDefaultPrompt = EthicalGuardian_defaultPrompt,
      prompt_form = AudienceForm,
      status_field = ''OVERALL_RATING:'',
      token_success = ''ACCEPTABLE'',
      token_warning = ''NEEDS_REVISION'',
      token_error = ''PROBLEMATIC'',
      fixes_marker = ''RECOMMENDATIONS:'',
      fixes_stops = [''TONE_ASSESSMENT:'', ''OVERALL_RATING:'']\<rparr>"

definition parseEthicalEvaluationResults :: "string \<Rightarrow> ParseResult" where
  "parseEthicalEvaluationResults = parseResults EthicalGuardian"

definition ToneAndAudienceModulator_defaultPrompt :: string where
  \<open>ToneAndAudienceModulator_defaultPrompt = join_lines
    ['''',
     ''You are a professional editor specializing in tone analysis and audience targeting.'',
     ''Analyze the provided content for:'',
     ''1. Current tone and voice (formal, casual, academic, conversational, etc.)'',
     ''2. Language complexity and readability level (grade level, technical density)'',
     ''3. Consistency of tone throughout the document'',
     ''4. Appropriateness for the stated target audience'',
     ''5. Vocabulary and terminology usage'',
     ''6. Sentence structure and paragraph flow'',
     '''',
     ''Provide detailed analysis including:'',
     ''- Assessment of current tone and style'',
     ''- Identification of inconsistencies or shifts in tone'',
     ''- Evaluation of audience appropriateness'',
     ''- Specific examples of text that could be improved'',
     ''- Suggested revisions with examples'',
     '''',
     ''Format your response as follows:'',
     ''TONE_ANALYSIS: Detailed assessment of current tone'',
     ''AUDIENCE_FIT: Evaluation of appropriateness for target audience'',
     ''READABILITY_METRICS: Estimated reading level and complexity'',
     ''CONSISTENCY_ISSUES: Identified tone shifts or inconsistencies'',
     ''RECOMMENDATIONS: Specific suggestions for improvement'',
     ''OVERALL_ASSESSMENT: Either "WELL_ALIGNED", "MINOR_ADJUSTMENTS_NEEDED", or "MAJOR_REVISION_REQUIRED"'',
     ''    '']\<close>

definition ToneAndAudienceModulator :: module_class where
  "ToneAndAudienceModulator =
     \<lparr>class_moduleId = ''ToneAndAudienceModulator'',
      class_description = ''Analyzes target audience and language level, suggests stylistic changes for consistent tone'',
      invalid_input_fix = ''Provide non-empty content for tone and audience analysis'',
      start_message = ''Starting tone and audience analysis'',
      completed_message = ''Tone and audience analysis completed with status: '',
      error_message = ''Error during tone and audience analysis'',
      retry_fix = ''Retry the tone and audience analysis'',
      getDefaultPrompt = ToneAndAudienceModulator_defaultPrompt,
      prompt_form = AudienceForm,
      status_field = ''OVERALL_ASSESSMENT:'',
      token_success = ''WELL_ALIGNED'',
      token_warning = ''MINOR_ADJUSTMENTS_NEEDED'',
      token_error = ''MAJOR_REVISION_REQUIRED'',
      fixes_marker = ''RECOMMENDATIONS:'',
      fixes_stops = [''OVERALL_ASSESSMENT:'']\<rparr>"

definition parseToneAnalysisResults :: "string \<Rightarrow> ParseResult" where
  "parseToneAnalysisResults = parseResults ToneAndAudienceModulator"

definition PlotLogicBuilder_defaultPrompt :: string where
  \<open>PlotLogicBuilder_defaultPrompt = join_lines
    ['''',
     ''You are a structural editor specializing in narrative and argumentative flow analysis.'',
     ''Analyze the provided content to create a detailed map of:'',
     ''1. Main themes, arguments, or plot points'',
     ''2. Logical connections between ideas or events'',
     ''3. Argumentative structure and evidence chains'',
     ''4. Narrative arcs or argument progression'',
     ''5. Potential logical fallacies or plot holes'',
     ''6. Structural balance and pacing'',
     '''',
     ''For narrative content, focus on:'',
     ''- Plot structure and story arcs'',
     ''- Character development and relationships'',
     ''- Setting and world-building elements'',
     ''- Conflict and resolution patterns'',
     ''- Pacing and tension management'',
     '''',
     ''For argumentative/academic content, focus on:'',
     ''- Thesis statements and main arguments'',
     ''- Evidence presentation and quality'',
     ''- Logical flow between concepts'',
     ''- Counter-arguments and their handling'',
     ''- Conclusion strength and implications'',
     '''',
     ''Format your response as follows:'',
     ''STRUCTURE_MAP: Visual representation of content structure'',
     ''KEY_ELEMENTS: List of main components (arguments, plot points, etc.)'',
     ''CONNECTIONS: Identified relationships between elements'',
     ''STRUCTURAL_ISSUES: Potential problems in logic or narrative flow'',
     ''RECOMMENDATIONS: Suggestions for structural improvement'',
     ''OVERALL_COHERENCE: Either "STRONG", "ADEQUATE", or "NEEDS_RESTRUCTURING"'',
     ''    '']\<close>

definition PlotLogicBuilder :: module_class where
  "PlotLogicBuilder =
     \<lparr>class_moduleId = ''PlotLogicBuilder'',
      class_description = ''Creates a map of plot, logical connections, and argumentation nodes'',
      invalid_input_fix = ''Provide non-empty content for plot/logic analysis'',
      start_message = ''Starting plot and logic structure analysis'',
      completed_message = ''Plot and logic analysis completed with status: '',
      error_message = ''Error during plot and logic analysis'',
      retry_fix = ''Retry the plot and logic analysis'',
      getDefaultPrompt = PlotLogicBuilder_defaultPrompt,
      prompt_form = PlainForm,
      status_field = ''OVERALL_COHERENCE:'',
      token_success = ''STRONG'',
      token_warning = ''ADEQUATE'',
      token_error = ''NEEDS_RESTRUCTURING'',
      fixes_marker = ''RECOMMENDATIONS:'',
      fixes_stops = [''OVERALL_COHERENCE:'']\<rparr>"

definition parsePlotLogicResults :: "string \<Rightarrow> ParseResult" where
  "parsePlotLogicResults = parseResults PlotLogicBuilder"

definition SimulatedFeedbackReader_defaultPrompt :: string where
  \<open>SimulatedFeedbackReader_defaultPrompt = join_lines
    ['''',
     ''You are simulating a diverse group of readers encountering this content for the first time.'',
     ''Your task is to identify areas that might confuse readers or prompt questions.'',
     '''',
     ''Analyze the content from multiple reader perspectives and identify:'',
     ''1. Confusing passages or unclear explanations'',
     ''2. Jargon or terminology that isn't adequately defined'',
     ''3. Logical leaps that might lose readers'',
     ''4. Concepts that need more background or context'',
     ''5. Sections that feel rushed or overly condensed'',
     ''6. Claims that readers might question or challenge'',
     '''',
     ''For each identified issue:'',
     ''- Quote the specific text'',
     ''- Explain why it might confuse readers'',
     ''- Formulate 1-3 questions a typical reader might ask'',
     ''- Suggest how the content could be improved for clarity'',
     '''',
     ''Consider different reader backgrounds (novice to expert) in your analysis.'',
     '''',
     ''Format your response as follows:'',
     ''READER_PERSONAS: Brief description of the simulated reader types'',
     ''CONFUSION_POINTS: Identified areas of potential confusion'',
     ''READER_QUESTIONS: Likely questions readers would ask'',
     ''CLARITY_RECOMMENDATIONS: Suggestions for improving reader comprehension'',
     ''OVERALL_CLARITY: Either "CLEAR", "SOMEWHAT_CLEAR", or "NEEDS_CLARIFICATION"'',
     ''    '']\<close>

definition SimulatedFeedbackReader :: module_class where
  "SimulatedFeedbackReader =
     \<lparr>class_moduleId = ''SimulatedFeedbackReader'',
      class_description = ''Generates questions that a typical reader might ask and identifies confusing or insufficiently explained sections'',
      invalid_input_fix = ''Provide non-empty content for reader feedback simulation'',
      start_message = ''Starting simulated reader feedback generation'',
      completed_message = ''Simulated reader feedback completed with status: '',
      error_message = ''Error during simulated reader feedback generation'',
      retry_fix = ''Retry the simulated reader feedback generation'',
      getDefaultPrompt = SimulatedFeedbackReader_defaultPrompt,
      prompt_form = AudienceForm,
      status_field = ''OVERALL_CLARITY:'',
      token_success = ''CLEAR'',
      token_warning = ''SOMEWHAT_CLEAR'',
      token_error = ''NEEDS_CLARIFICATION'',
      fixes_marker = ''CLARITY_RECOMMENDATIONS:'',
      fixes_stops = [''OVERALL_CLARITY:'']\<rparr>"

definition parseSimulatedFeedbackResults :: "string \<Rightarrow> ParseResult" where
  "parseSimulatedFeedbackResults = parseResults SimulatedFeedbackReader"

definition WYSIWYGLayoutPreview_defaultPrompt :: string where
  \<open>WYSIWYGLayoutPreview_defaultPrompt = join_lines
    ['''',
     ''You are a layout and formatting specialist tasked with generating preview layouts for different publication formats.'',
     ''Analyze the provided content and create layout specifications for:'',
     ''1. PDF format'',
     ''2. EPUB format'',
     ''3. HTML format'',
     ''4. Markdown format'',
     '''',
     ''For each format, provide:'',
     ''- Recommended structure and organization'',
     ''- Heading hierarchy and formatting'',
     ''- Paragraph styling and spacing'',
     ''- Table and image placement recommendations'',
     ''- Typography suggestions (font families, sizes, weights)'',
     ''- Page/screen layout considerations'',
     ''- Navigation elements and cross-references'',
     '''',
     ''Consider the content type and target audience when making recommendations.'',
     ''Provide specific CSS or styling code snippets where appropriate.'',
     '''',
     ''Format your response as follows:'',
     ''PDF_LAYOUT: Detailed specifications for PDF format'',
     ''EPUB_LAYOUT: Detailed specifications for EPUB format'',
     ''HTML_LAYOUT: Detailed specifications for HTML format including CSS'',
     ''MARKDOWN_LAYOUT: Detailed specifications for Markdown format'',
     ''LAYOUT_RECOMMENDATIONS: General suggestions for improving visual presentation'',
     ''OVERALL_ASSESSMENT: Either "READY_FOR_FORMATTING", "MINOR_ADJUSTMENTS_NEEDED", or "MAJOR_RESTRUCTURING_REQUIRED"'',
     ''    '']\<close>

definition WYSIWYGLayoutPreview :: module_class where
  "WYSIWYGLayoutPreview =
     \<lparr>class_moduleId = ''WYSIWYGLayoutPreview'',
      class_description = ''Generates preview layouts for different formats (.pdf, .epub, .html, .md)'',
      invalid_input_fix = ''Provide non-empty content for layout preview generation'',
      start_message = ''Starting layout preview generation'',
      completed_message = ''Layout preview generation completed with status: '',
      error_message = ''Error during layout preview generation'',
      retry_fix = ''Retry the layout preview generation'',
      getDefaultPrompt = WYSIWYGLayoutPreview_defaultPrompt,
      prompt_form = AudienceForm,
      status_field = ''OVERALL_ASSESSMENT:'',
      token_success = ''READY_FOR_FORMATTING'',
      token_warning = ''MINOR_ADJUSTMENTS_NEEDED'',
      token_error = ''MAJOR_RESTRUCTURING_REQUIRED'',
      fixes_marker = ''LAYOUT_RECOMMENDATIONS:'',
      fixes_stops = [''OVERALL_ASSESSMENT:'']\<rparr>"

definition parseLayoutPreviewResults :: "string \<Rightarrow> ParseResult" where
  "parseLayoutPreviewResults = parseResults WYSIWYGLayoutPreview"

definition ChapterImageGallery_defaultPrompt :: string where
  \<open>ChapterImageGallery_defaultPrompt = join_lines
    ['''',
     ''You are a visual content specialist tasked with creating image prompts for text-to-image generation based on content chapters.'',
     ''Analyze the provided content and:'',
     ''1. Identify natural chapter or section breaks'',
     ''2. For each chapter/section, create detailed image prompts that:'',
     ''   - Capture the essence of the chapter/section'',
     ''   - Represent key concepts, scenes, or ideas'',
     ''   - Align with the overall tone and style'',
     ''   - Would enhance reader understanding'',
     ''3. Suggest image placement and sizing within the document'',
     ''4. Recommend visual style consistency guidelines'',
     '''',
     ''For each chapter/section:'',
     ''- Provide a brief summary of the content'',
     ''- Create 1-3 detailed text-to-image prompts (150-200 words each)'',
     ''- Suggest caption text for each image'',
     ''- Recommend placement (beginning, within specific paragraphs, end)'',
     '''',
     ''Format your response as follows:'',
     ''CONTENT_STRUCTURE: Brief overview of identified chapters/sections'',
     ''CHAPTER_IMAGES: Detailed image prompts for each chapter/section'',
     ''STYLE_GUIDELINES: Recommendations for visual consistency'',
     ''IMAGE_METADATA: Suggested captions, alt text, and placement'',
     ''OVERALL_ASSESSMENT: Either "READY_FOR_ILLUSTRATION", "PARTIAL_COVERAGE", or "NEEDS_RESTRUCTURING"'',
     ''    '']\<close>

definition ChapterImageGallery :: module_class where
  "ChapterImageGallery =
     \<lparr>class_moduleId = ''ChapterImageGallery'',
      class_description = ''Assigns illustrated images to chapters based on content and uses text2image engine for visual enrichment'',
      invalid_input_fix = ''Provide non-empty content for chapter image generation'',
      start_message = ''Starting chapter image gallery generation'',
      completed_message = ''Chapter image gallery generation completed with status: '',
      error_message = ''Error during chapter image gallery generation'',
      retry_fix = ''Retry the chapter image gallery generation'',
      getDefaultPrompt = ChapterImageGallery_defaultPrompt,
      prompt_form = AudienceForm,
      status_field = ''OVERALL_ASSESSMENT:'',
      token_success = ''READY_FOR_ILLUSTRATION'',
      token_warning = ''PARTIAL_COVERAGE'',
      token_error = ''NEEDS_RESTRUCTURING'',
      fixes_marker = ''STYLE_GUIDELINES:'',
      fixes_stops = [''IMAGE_METADATA:'', ''OVERALL_ASSESSMENT:'']\<rparr>"

definition parseChapterImageResults :: "string \<Rightarrow> ParseResult" where
  "parseChapterImageResults = parseResults ChapterImageGallery"

definition SmartExportEngine_defaultPrompt :: string where
  \<open>SmartExportEngine_defaultPrompt = join_lines
    ['''',
     ''You are a document format specialist tasked with preparing content for export to multiple formats.'',
     ''Analyze the provided content and create detailed export specifications for:'',
     ''1. PDF format'',
     ''2. EPUB format'',
     ''3. HTML format'',
     ''4. Markdown format'',
     ''5. JSON format'',
     '''',
     ''For each format, provide:'',
     ''- Necessary structural transformations'',
     ''- Format-specific metadata requirements'',
     ''- Code snippets or templates for conversion'',
     ''- Preservation strategies for complex elements (tables, images, etc.)'',
     ''- Styling and formatting considerations'',
     ''- Potential export issues and solutions'',
     '''',
     ''Consider the content type and structure when making recommendations.'',
     ''Provide specific code examples, templates, or configuration snippets where appropriate.'',
     '''',
     ''Format your response as follows:'',
     ''PDF_EXPORT: Detailed specifications for PDF export'',
     ''EPUB_EXPORT: Detailed specifications for EPUB export'',
     ''HTML_EXPORT: Detailed specifications for HTML export'',
     ''MARKDOWN_EXPORT: Detailed specifications for Markdown export'',
     ''JSON_EXPORT: Detailed specifications for JSON export'',
     ''EXPORT_RECOMMENDATIONS: General suggestions for improving export quality'',
     ''OVERALL_ASSESSMENT: Either "READY_FOR_EXPORT", "MINOR_ADJUSTMENTS_NEEDED", or "MAJOR_RESTRUCTURING_REQUIRED"'',
     ''    '']\<close>

definition SmartExportEngine :: module_class where
  "SmartExportEngine =
     \<lparr>class_moduleId = ''SmartExportEngine'',
      class_description = ''Exports content to various formats (.pdf, .epub, .html, .md, .json) while preserving structure and style'',
      invalid_input_fix = ''Provide non-empty content for export specification generation'',
      start_message = ''Starting export specification generation'',
      completed_message = ''Export specification generation completed with status: '',
      error_message = ''Error during export specification generation'',
      retry_fix = ''Retry the export specification generation'',
      getDefaultPrompt = SmartExportEngine_defaultPrompt,
      prompt_form = AudienceForm,
      status_field = ''OVERALL_ASSESSMENT:'',
      token_success = ''READY_FOR_EXPORT'',
      token_warning = ''MINOR_ADJUSTMENTS_NEEDED'',
      token_error = ''MAJOR_RESTRUCTURING_REQUIRED'',
      fixes_marker = ''EXPORT_RECOMMENDATIONS:'',
      fixes_stops = [''OVERALL_ASSESSMENT:'']\<rparr>"

definition parseExportResults :: "string \<Rightarrow> ParseResult" where
  "parseExportResults = parseResults SmartExportEngine"

definition PromptTraceability_defaultPrompt :: string where
  \<open>PromptTraceability_defaultPrompt = join_lines
    ['''',
     ''You are a content auditing specialist tasked with analyzing AI-generated content for traceability.'',
     ''Analyze the provided content and:'',
     ''1. Identify potential AI-generated sections or elements'',
     ''2. Assess whether the content contains sufficient metadata for traceability'',
     ''3. Recommend metadata fields that should be included for full auditability'',
     ''4. Suggest a structured format for embedding traceability information'',
     '''',
     ''Consider:'',
     ''- Transparency requirements for AI-generated content'',
     ''- Ethical considerations for content attribution'',
     ''- Technical approaches for embedding metadata'',
     ''- Compliance with potential regulatory requirements'',
     '''',
     ''Format your response as follows:'',
     ''AI_DETECTION: Assessment of which parts appear to be AI-generated'',
     ''METADATA_ASSESSMENT: Evaluation of existing metadata and traceability'',
     ''RECOMMENDED_METADATA: Suggested metadata fields and format'',
     ''IMPLEMENTATION_APPROACH: Technical suggestions for metadata embedding'',
     ''OVERALL_ASSESSMENT: Either "FULLY_TRACEABLE", "PARTIALLY_TRACEABLE", or "NOT_TRACEABLE"'',
     ''    '']\<close>

definition PromptTraceability :: module_class where
  "PromptTraceability =
     \<lparr>class_moduleId = ''PromptTraceability'',
      class_description = ''Ensures each output contains metadata including prompt used, model, time, and ID for auditability'',
      invalid_input_fix = ''Provide non-empty content for traceability analysis'',
      start_message = ''Starting prompt traceability analysis'',
      completed_message = ''Prompt traceability analysis completed with status: '',
      error_message = ''Error during prompt traceability analysis'',
      retry_fix = ''Retry the prompt traceability analysis'',
      getDefaultPrompt = PromptTraceability_defaultPrompt,
      prompt_form = TraceForm,
      status_field = ''OVERALL_ASSESSMENT:'',
      token_success = ''FULLY_TRACEABLE'',
      token_warning = ''PARTIALLY_TRACEABLE'',
      token_error = ''NOT_TRACEABLE'',
      fixes_marker = ''RECOMMENDED_METADATA:'',
      fixes_stops = [''IMPLEMENTATION_APPROACH:'', ''OVERALL_ASSESSMENT:'']\<rparr>"

definition parseTraceabilityResults :: "string \<Rightarrow> ParseResult" where
  "parseTraceabilityResults = parseResults PromptTraceability"

definition HallucinationFilter_defaultPrompt :: string where
  \<open>HallucinationFilter_defaultPrompt = join_lines
    ['''',
     ''You are a hallucination detection specialist tasked with identifying potential AI fabrications in content.'',
     ''Analyze the provided content for:'',
     ''1. Citations to non-existent or incorrectly referenced sources'',
     ''2. References to fictional books, papers, or authors presented as real'',
     ''3. Made-up statistics, dates, or numerical data'',
     ''4. Fabricated quotes or statements attributed to real people'',
     ''5. Invented historical events or scientific discoveries'',
     ''6. Fictional organizations, institutions, or companies presented as real'',
     '''',
     ''For each identified potential hallucination:'',
     ''- Quote the exact text'',
     ''- Explain why it appears to be a hallucination'',
     ''- Assign a confidence level (LOW, MEDIUM, HIGH)'',
     ''- Suggest a correction or removal approach'',
     '''',
     ''Format your response as follows:'',
     ''HALLUCINATION_SUMMARY: Brief overview of detected issues'',
     ''DETAILED_FINDINGS: List of potential hallucinations with analysis'',
     ''VERIFICATION_SUGGESTIONS: Approaches to verify suspicious content'',
     ''RECOMMENDED_ACTIONS: Specific fixes for identified hallucinations'',
     ''OVERALL_ASSESSMENT: Either "NO_HALLUCINATIONS_DETECTED", "MINOR_HALLUCINATIONS", or "SIGNIFICANT_HALLUCINATIONS"'',
     ''    '']\<close>

definition HallucinationFilter :: module_class where
  "HallucinationFilter =
     \<lparr>class_moduleId = ''HallucinationFilter'',
      class_description = ''Detects LLM hallucinations such as fabricated citations, non-existent books, and incorrect numbers'',
      invalid_input_fix = ''Provide non-empty content for hallucination detection'',
      start_message = ''Starting hallucination detection'',
      completed_message = ''Hallucination detection completed with status: '',
      error_message = ''Error during hallucination detection'',
      retry_fix = ''Retry the hallucination detection'',
      getDefaultPrompt = HallucinationFilter_defaultPrompt,
      prompt_form = PlainForm,
      status_field = ''OVERALL_ASSESSMENT:'',
      token_success = ''NO_HALLUCINATIONS_DETECTED'',
      token_warning = ''MINOR_HALLUCINATIONS'',
      token_error = ''SIGNIFICANT_HALLUCINATIONS'',
      fixes_marker = ''RECOMMENDED_ACTIONS:'',
      fixes_stops = [''OVERALL_ASSESSMENT:'']\<rparr>"

definition parseHallucinationResults :: "string \<Rightarrow> ParseResult" where
  "parseHallucinationResults = parseResults HallucinationFilter"

section \<open>Controller (controllers/ContentGuardianController)\<close>

text \<open>
  The controller sees a module through the interface \<^verbatim>\<open>ContentGuardianModule\<close>: an id,
  a description and a \<^verbatim>\<open>process\<close> method, which may be any implementation (the tests
  register mocks). A call of \<^verbatim>\<open>process\<close> changes the world and either returns a result
  or throws; a promise that never settles is not modelled. \<open>new_module\<close> is an instance
  of one of the ten classes.
\<close>

record ContentGuardianModule =
  module_moduleId :: string
  module_description :: string
  module_process ::
    "ContentInput option \<Rightarrow> ModuleOptions option \<Rightarrow> world \<Rightarrow> (js_exn + ModuleResult) \<times> world"

definition new_module :: "env \<Rightarrow> module_class \<Rightarrow> ContentGuardianModule" where
  "new_module e c =
     \<lparr>module_moduleId = class_moduleId c,
      module_description = class_description c,
      module_process = process e c\<rparr>"

type_synonym registry = "string \<rightharpoonup> ContentGuardianModule"

definition registerModule :: "env \<Rightarrow> registry \<Rightarrow> ContentGuardianModule \<Rightarrow> world \<Rightarrow> registry \<times> world" where
  "registerModule e reg m w =
     (let w1 = (if reg (module_moduleId m) \<noteq> None
                then logger_warning e ''ContentGuardianController''
                       (''Module with ID '' @ module_moduleId m @ '' already exists. Overwriting.'') w
                else w);
          reg1 = reg(module_moduleId m \<mapsto> m);
          w2 = logger_info e ''ContentGuardianController''
                 (''Module '' @ module_moduleId m @ '' registered successfully'') w1
      in (reg1, w2))"

definition getModule :: "registry \<Rightarrow> string \<Rightarrow> ContentGuardianModule option" where
  "getModule reg mid = reg mid"

subsection \<open>runModule\<close>

text \<open>
  \<open>Inl\<close> is the exception thrown by \<open>runModule\<close> (the rejection of its promise),
  \<open>Inr\<close> the result it returns.
\<close>

definition runModule ::
  "env \<Rightarrow> registry \<Rightarrow> string \<Rightarrow> ContentInput option \<Rightarrow> ModuleOptions option \<Rightarrow> world \<Rightarrow>
   (js_exn + ModuleResult) \<times> world" where
  "runModule e reg mid input opts w =
     (case reg mid of
        None \<Rightarrow>
          (let w1 = logger_error e ''ContentGuardianController'' (''Module '' @ mid @ '' not found'') None w
           in (Inl (ErrorObject (''Module '' @ mid @ '' not found'')), w1))
      | Some m \<Rightarrow>
          (let w1 = logger_info e ''ContentGuardianController'' (''Running module '' @ mid) w
           in case module_process m input opts w1 of
                (Inr result, w2) \<Rightarrow>
                  (let w3 = logger_info e ''ContentGuardianController''
                              (''Module '' @ mid @ '' completed with status: '' @ status_text (status result)) w2
                   in (Inr result, w3))
              | (Inl err, w2) \<Rightarrow>
                  (let w3 = logger_error e ''ContentGuardianController''
                              (''Error running module '' @ mid) (Some err) w2;
                       (now, w4) = new_Date e w3
                   in (Inr \<lparr>moduleId = mid,
                            status = Error,
                            report = ''Error running module: '' @ exn_message err,
                            recommendedFixes = None,
                            metadata = \<lparr>timestamp = now,
                                        promptUsed = str_or (Option.bind opts customPrompt) ''default'',
                                        modelVersion = str_or (Option.bind opts model) ''default-model''\<rparr>\<rparr>,
                       w4))))"

subsection \<open>generateWorkflowSummary\<close>

definition generateWorkflowSummary :: "ModuleResult list \<Rightarrow> string" where
  "generateWorkflowSummary rs =
     (let totalModules = length rs;
          successCount = length (filter (\<lambda>r. status r = Success) rs);
          warningCount = length (filter (\<lambda>r. status r = Warning) rs);
          errorCount = length (filter (\<lambda>r. status r = Error) rs);
          summary0 = ''Workflow Summary: '' @ string_of_nat totalModules @ '' modules processed'' @ newline
                     @ ''- Success: '' @ string_of_nat successCount @ newline
                     @ ''- Warning: '' @ string_of_nat warningCount @ newline
                     @ ''- Error: '' @ string_of_nat errorCount @ newline @ newline
      in if warningCount > 0 \<or> errorCount > 0 then
           foldl (\<lambda>acc result.
                    if status result = Warning \<or> status result = Error then
                      acc @ ''- ['' @ toUpperCase (status_text (status result)) @ ''] ''
                          @ moduleId result @ '': '' @ hd (split_lines (report result)) @ newline
                          @ (case recommendedFixes result of
                               Some fixes \<Rightarrow>
                                 if length fixes > 0
                                 then ''  Recommended fixes: '' @ string_of_nat (length fixes) @ newline
                                 else []
                             | None \<Rightarrow> [])
                    else acc)
                 (summary0 @ ''Issues found:'' @ newline) rs
         else summary0)"

subsection \<open>runWorkflow\<close>

text \<open>
  The variables of \<open>runWorkflow\<close> that the two modes update: the results, the running
  status and the world. \<open>loop_calls\<close> is not a variable of the program: it records, for
  the theorems, each call of a module's \<^verbatim>\<open>process\<close> made through \<open>runModule\<close>, as
  the requested id and the result that \<open>runModule\<close> returned for it. \<open>runModule\<close> calls
  \<^verbatim>\<open>process\<close> exactly when it finds the module, which is exactly when it returns a
  result.
\<close>

record loop_state =
  loop_results :: "ModuleResult list"
  loop_status :: ModuleStatus
  loop_calls :: "(string \<times> ModuleResult) list"
  loop_world :: world

text \<open>\<^verbatim>\<open>workflowOptions.options?.[moduleId]\<close>\<close>

definition options_for :: "WorkflowOptions \<Rightarrow> string \<Rightarrow> ModuleOptions option" where
  "options_for wo mid = (case options wo of None \<Rightarrow> None | Some m \<Rightarrow> m mid)"

text \<open>
  The sequential mode: the \<^verbatim>\<open>for\<close> loop over the module ids, one equation per
  iteration; a \<^verbatim>\<open>break\<close> returns the state without the recursive call.
\<close>

fun run_sequential ::
  "env \<Rightarrow> registry \<Rightarrow> ContentInput option \<Rightarrow> WorkflowOptions \<Rightarrow> string list \<Rightarrow> loop_state \<Rightarrow> loop_state" where
  "run_sequential e reg input wo [] st = st"
| "run_sequential e reg input wo (mid # rest) st =
     (let moduleOptions = options_for wo mid
      in case runModule e reg mid input moduleOptions (loop_world st) of
           (Inr result, w1) \<Rightarrow>
             (let st1 = st\<lparr>loop_results := loop_results st @ [result],
                           loop_calls := loop_calls st @ [(mid, result)],
                           loop_world := w1\<rparr>
              in if status result = Error then
                   (let st2 = st1\<lparr>loop_status := Error\<rparr>
                    in if truthy (stopOnError wo) then
                         st2\<lparr>loop_world := logger_warning e ''ContentGuardianController''
                                              (''Workflow stopped due to error in module '' @ mid) w1\<rparr>
                       else run_sequential e reg input wo rest st2)
                 else if status result = Warning \<and> loop_status st1 \<noteq> Error then
                   run_sequential e reg input wo rest (st1\<lparr>loop_status := Warning\<rparr>)
                 else run_sequential e reg input wo rest st1)
         | (Inl err, w1) \<Rightarrow>
             (let w2 = logger_error e ''ContentGuardianController''
                         (''Error in workflow for module '' @ mid) (Some err) w1
              in if truthy (stopOnError wo) then st\<lparr>loop_status := Error, loop_world := w2\<rparr>
                 else run_sequential e reg input wo rest (st\<lparr>loop_world := w2\<rparr>)))"

text \<open>
  The parallel mode. \<open>dispatch_parallel\<close> is the \<^verbatim>\<open>map\<close> that starts one call of
  \<open>runModule\<close> per id and logs and rethrows its exception; the calls are taken in the
  order of the list, one after the other, which is one of the interleavings of the program.
  \<open>promise_all\<close> is \<^verbatim>\<open>Promise.all\<close>: all the results in the order of the list, or the
  first rejection. A call of \<open>runModule\<close> is rejected only for a missing module, before
  anything is awaited, so the first rejection is that of the first such id of the list.
  The world returned is the one after every dispatched call has settled.
\<close>

fun dispatch_parallel ::
  "env \<Rightarrow> registry \<Rightarrow> ContentInput option \<Rightarrow> WorkflowOptions \<Rightarrow> string list \<Rightarrow> world \<Rightarrow>
   (js_exn + ModuleResult) list \<times> world" where
  "dispatch_parallel e reg input wo [] w = ([], w)"
| "dispatch_parallel e reg input wo (mid # rest) w =
     (let moduleOptions = options_for wo mid;
          (outcome, w1) = runModule e reg mid input moduleOptions w;
          w2 = (case outcome of
                  Inl err \<Rightarrow> logger_error e ''ContentGuardianController''
                               (''Error in parallel workflow for module '' @ mid) (Some err) w1
                | Inr result \<Rightarrow> w1);
          (outcomes, w3) = dispatch_parallel e reg input wo rest w2
      in (outcome # outcomes, w3))"

fun promise_all :: "('e + 'a) list \<Rightarrow> 'e + 'a list" where
  "promise_all [] = Inr []"
| "promise_all (Inl err # rest) = Inl err"
| "promise_all (Inr x # rest) =
     (case promise_all rest of Inl err \<Rightarrow> Inl err | Inr xs \<Rightarrow> Inr (x # xs))"

fun calls_of :: "string list \<Rightarrow> (js_exn + ModuleResult) list \<Rightarrow> (string \<times> ModuleResult) list" where
  "calls_of (mid # mids) (Inr result # outcomes) = (mid, result) # calls_of mids outcomes"
| "calls_of (mid # mids) (Inl err # outcomes) = calls_of mids outcomes"
| "calls_of mids outcomes = []"

definition run_parallel ::
  "env \<Rightarrow> registry \<Rightarrow> ContentInput option \<Rightarrow> WorkflowOptions \<Rightarrow> loop_state \<Rightarrow> loop_state" where
  "run_parallel e reg input wo st =
     (let (outcomes, w1) = dispatch_parallel e reg input wo (modules wo) (loop_world st);
          st1 = st\<lparr>loop_calls := loop_calls st @ calls_of (modules wo) outcomes, loop_world := w1\<rparr>
      in case promise_all outcomes of
           Inr moduleResults \<Rightarrow>
             (let st2 = st1\<lparr>loop_results := loop_results st1 @ moduleResults\<rparr>
              in if list_ex (\<lambda>result. status result = Error) (loop_results st2) then
                   st2\<lparr>loop_status := Error\<rparr>
                 else if list_ex (\<lambda>result. status result = Warning) (loop_results st2) then
                   st2\<lparr>loop_status := Warning\<rparr>
                 else st2)
         | Inl err \<Rightarrow>
             st1\<lparr>loop_status := Error,
                 loop_world := logger_error e ''ContentGuardianController''
                                 ''Error in parallel workflow execution'' (Some err) w1\<rparr>)"

text \<open>
  \<open>runWorkflow\<close> returns the \<^verbatim>\<open>WorkflowResult\<close>; the model returns with it the record
  of the calls of \<^verbatim>\<open>process\<close>.
\<close>

definition runWorkflow ::
  "env \<Rightarrow> registry \<Rightarrow> ContentInput option \<Rightarrow> WorkflowOptions \<Rightarrow> world \<Rightarrow>
   (WorkflowResult \<times> (string \<times> ModuleResult) list) \<times> world" where
  "runWorkflow e reg input wo w =
     (let (wid, w1) = new_uuid e w;
          (startTime, w2) = new_Date e w1;
          w3 = logger_info e ''ContentGuardianController''
                 (''Starting workflow '' @ wid @ '' with '' @ string_of_nat (length (modules wo)) @ '' modules'') w2;
          st0 = \<lparr>loop_results = [], loop_status = Success, loop_calls = [], loop_world = w3\<rparr>;
          st = (if truthy (sequential wo) then run_sequential e reg input wo (modules wo) st0
                else run_parallel e reg input wo st0);
          workflowResult =
            \<lparr>workflowId = wid,
             workflow_timestamp = startTime,
             workflow_status = loop_status st,
             results = loop_results st,
             summary = generateWorkflowSummary (loop_results st)\<rparr>;
          w4 = logger_info e ''ContentGuardianController''
                 (''Workflow '' @ wid @ '' completed with status: '' @ status_text (loop_status st))
                 (loop_world st)
      in ((workflowResult, loop_calls st), w4))"


section \<open>Example inputs\<close>

text \<open>
  Concrete inputs at which the theorems below are instantiated: a clock and an identifier
  source that always give the same text, a provider that always answers, an empty world,
  two content records and one options record; then the mocks of the controller tests (a
  module whose \<^verbatim>\<open>process\<close> resolves to a fixed result, one whose \<^verbatim>\<open>process\<close> is
  rejected), a registry of three of them, and completions for the parse method.
\<close>

definition example_env :: env where
  "example_env =
     \<lparr>isoTime = (\<lambda>n. ''2025-01-01T00:00:00.000Z''),
      uuidv4 = (\<lambda>n. ''00000000-0000-4000-8000-000000000000''),
      openai = (\<lambda>history request. Inr (Some ''OVERALL_ASSESSMENT: PASS''))\<rparr>"

definition empty_world :: world where
  "empty_world = \<lparr>logs = [], ai_calls = [], clock_reads = 0, uuid_reads = 0\<rparr>"

definition example_input :: ContentInput where
  "example_input =
     \<lparr>content = Some ''Some text.'', title = None, author = None, targetAudience = None,
      contentType = None, additionalContext = None\<rparr>"

definition blank_input :: ContentInput where
  "blank_input =
     \<lparr>content = Some [CHR 0x20, CHR 0x09, CHR 0x0A], title = Some ''Title'', author = None,
      targetAudience = None, contentType = Some Article, additionalContext = None\<rparr>"

definition custom_options :: ModuleOptions where
  "custom_options =
     \<lparr>verbose = None, maxTokens = None, model = None, customPrompt = Some ''Check the facts.''\<rparr>"

definition mock_result :: "string \<Rightarrow> ModuleStatus \<Rightarrow> ModuleResult" where
  "mock_result mid st =
     \<lparr>moduleId = mid, status = st, report = ''Mock report'', recommendedFixes = None,
      metadata = \<lparr>timestamp = ''2025-01-01T00:00:00.000Z'', promptUsed = ''Test prompt'',
                  modelVersion = ''test-model''\<rparr>\<rparr>"

definition mock_module :: "string \<Rightarrow> ModuleStatus \<Rightarrow> ContentGuardianModule" where
  "mock_module mid st =
     \<lparr>module_moduleId = mid, module_description = ''Mock'',
      module_process = (\<lambda>input opts w. (Inr (mock_result mid st), w))\<rparr>"

definition throwing_module :: "string \<Rightarrow> js_exn \<Rightarrow> ContentGuardianModule" where
  "throwing_module mid err =
     \<lparr>module_moduleId = mid, module_description = ''Mock'',
      module_process = (\<lambda>input opts w. (Inl err, w))\<rparr>"

definition mock_registry :: registry where
  "mock_registry =
     [''FactCheckLayer'' \<mapsto> mock_module ''FactCheckLayer'' Error,
      ''EthicalGuardian'' \<mapsto> mock_module ''EthicalGuardian'' Success,
      ''Thrower'' \<mapsto> throwing_module ''Thrower'' (ErrorObject ''boom'')]"

definition workflow_of :: "string list \<Rightarrow> bool option \<Rightarrow> bool option \<Rightarrow> WorkflowOptions" where
  "workflow_of ms seq stop = \<lparr>modules = ms, sequential = seq, stopOnError = stop, options = None\<rparr>"

definition lowercase_stop_example :: string where
  "lowercase_stop_example =
     [CHR 0x0A] @ ''1. Cite a source'' @ [CHR 0x0A] @ ''2. See overall_assessment: below'' @ [CHR 0x0A]"

definition markers_example_pre :: string where
  "markers_example_pre = ''SUMMARY: ok'' @ [CHR 0x0A]"

definition markers_example_mid :: string where
  "markers_example_mid =
     [CHR 0x0A] @ ''1. Cite a source'' @ [CHR 0x0A] @ ''  2. Fix the date  '' @ [CHR 0x0A]
     @ ''RECOMMENDATIONS: none'' @ [CHR 0x0A, CHR 0x0A]"


text \<open>
  Two more providers: one that always fails, and one whose answer holds a recommendations
  section of one line.
\<close>

definition failing_env :: env where
  "failing_env =
     \<lparr>isoTime = (\<lambda>n. ''2025-01-01T00:00:00.000Z''),
      uuidv4 = (\<lambda>n. ''00000000-0000-4000-8000-000000000000''),
      openai = (\<lambda>history request. Inl (ErrorObject ''Rate limit exceeded''))\<rparr>"

definition advising_env :: env where
  "advising_env =
     \<lparr>isoTime = (\<lambda>n. ''2025-01-01T00:00:00.000Z''),
      uuidv4 = (\<lambda>n. ''00000000-0000-4000-8000-000000000000''),
      openai = (\<lambda>history request.
        Inr (Some (''RECOMMENDATIONS:'' @ [CHR 0x0A] @ ''1. Cite a source'' @ [CHR 0x0A]
                   @ ''OVERALL_ASSESSMENT: PASS'')))\<rparr>"
section \<open>The words of the specification\<close>

text \<open>
  The specification speaks of the trimmed, non-empty lines of a text. This definition says
  that in the terms of the model; it is used to state the claim on the recommended fixes
  and is not part of the program.
\<close>

definition trimmed_nonempty_lines :: "string \<Rightarrow> string list" where
  "trimmed_nonempty_lines s = filter (\<lambda>line. line \<noteq> []) (map trim (split_lines s))"

section \<open>Lemmas\<close>

lemma trim_empty_iff: "trim s = [] \<longleftrightarrow> list_all isWhiteSpace s"
proof
  assume "list_all isWhiteSpace s"
  then show "trim s = []" by (auto simp: trim_def list_all_iff dest: set_dropWhileD)
next
  assume t: "trim s = []"
  have "dropWhile isWhiteSpace s = []"
  proof (rule ccontr)
    assume ne: "dropWhile isWhiteSpace s \<noteq> []"
    then have nw: "\<not> isWhiteSpace (hd (dropWhile isWhiteSpace s))" by (rule hd_dropWhile)
    from ne have mem: "hd (dropWhile isWhiteSpace s) \<in> set (rev (dropWhile isWhiteSpace s))" by simp
    from t have "dropWhile isWhiteSpace (rev (dropWhile isWhiteSpace s)) = []"
      by (simp add: trim_def)
    then have "\<forall>x\<in>set (rev (dropWhile isWhiteSpace s)). isWhiteSpace x"
      by (simp only: dropWhile_eq_Nil_conv)
    with mem nw show False by blast
  qed
  then show "list_all isWhiteSpace s" by (simp add: list_all_iff)
qed

lemma log_ai_calls [simp]: "ai_calls (log e lvl mid msg d w) = ai_calls w"
  by (simp add: log_def new_Date_def Let_def)

lemma logger_ai_calls [simp]:
  "ai_calls (logger_info e mid msg w) = ai_calls w"
  "ai_calls (logger_warning e mid msg w) = ai_calls w"
  "ai_calls (logger_error e mid msg d w) = ai_calls w"
  by (simp_all add: logger_info_def logger_warning_def logger_error_def)

lemma createMetadata_ai_calls [simp]: "ai_calls (snd (createMetadata e this opts w)) = ai_calls w"
  by (simp add: createMetadata_def new_Date_def Let_def)

lemma createResult_Some:
  "createResult e this st rep fixes (Some md) w =
     (\<lparr>moduleId = class_moduleId this, status = st, report = rep,
       recommendedFixes = (case fixes of Some (f # fs) \<Rightarrow> Some (f # fs) | _ \<Rightarrow> None),
       metadata = md\<rparr>,
      logger_info e (class_moduleId this) (''Module processing completed with status: '' @ status_text st) w)"
  by (simp add: createResult_def Let_def split: option.splits list.splits)

lemma validateInput_invalid:
  assumes "input = None \<or> (\<exists>i. input = Some i \<and> (content i = None \<or> (\<exists>c. content i = Some c \<and> list_all isWhiteSpace c)))"
  shows "validateInput e this input w =
           (False, logger_error e (class_moduleId this) ''Invalid input: content is required'' None w)"
  using assms by (auto simp: validateInput_def trim_empty_iff)

lemma process_invalid:
  assumes "input = None \<or> (\<exists>i. input = Some i \<and> (content i = None \<or> (\<exists>c. content i = Some c \<and> list_all isWhiteSpace c)))"
  shows "(\<exists>r. fst (process e this input opts w) = Inr r \<and> status r = Error
              \<and> startsWith (report r) ''Invalid input'')
         \<and> ai_calls (snd (process e this input opts w)) = ai_calls w"
  unfolding process_def validateInput_invalid [OF assms]
  by (simp add: createResult_Some startsWith_def split_beta Let_def)













lemma ci_prefix_append:
  "map canonicalize m = map canonicalize p \<Longrightarrow> ci_prefix p (m @ rest)"
  by (induction p arbitrary: m) auto

lemma match_section_first:
  assumes "ci_prefix marker rest"
    and "\<forall>i<length pre. \<not> ci_prefix marker (drop i (pre @ rest))"
  shows "match_section marker stops (pre @ rest) = Some (lazy_until stops (drop (length marker) rest))"
  using assms
proof (induction pre)
  case Nil
  then show ?case by (cases rest) (auto elim: ci_prefix.elims)
next
  case (Cons c pre)
  from Cons.prems(2) have h0: "\<not> ci_prefix marker (c # pre @ rest)" by force
  from Cons.prems(2) have "\<forall>i<length pre. \<not> ci_prefix marker (drop i (pre @ rest))" by force
  with Cons.IH Cons.prems(1) h0 show ?case by simp
qed

lemma lazy_until_first:
  assumes "ci_prefix stop rest"
    and "\<forall>i<length mid. \<not> ci_prefix stop (drop i (mid @ rest))"
  shows "lazy_until [stop] (mid @ rest) = mid"
  using assms
proof (induction mid)
  case Nil
  then show ?case by (cases rest) auto
next
  case (Cons c mid)
  from Cons.prems(2) have h0: "\<not> ci_prefix stop (c # mid @ rest)" by force
  from Cons.prems(2) have "\<forall>i<length mid. \<not> ci_prefix stop (drop i (mid @ rest))" by force
  with Cons.IH Cons.prems(1) h0 show ?case by simp
qed

lemma split_lines_not_Nil: "split_lines s \<noteq> []"
  by (induction s) (auto split: list.splits)

lemma trim_Nil: "trim [] = []"
  by (simp add: trim_def)

lemma trim_Cons_space: "isWhiteSpace c \<Longrightarrow> trim (c # s) = trim s"
  by (simp add: trim_def)

lemma trim_snoc_space: "isWhiteSpace c \<Longrightarrow> trim (s @ [c]) = trim s"
  by (induction s) (auto simp: trim_def)

lemma lines_dropWhile_front:
  assumes "\<not> P []"
  shows "filter P (map trim (split_lines (dropWhile isWhiteSpace s))) = filter P (map trim (split_lines s))"
proof (induction s)
  case Nil
  then show ?case by simp
next
  case (Cons c s)
  show ?case
  proof (cases "isWhiteSpace c")
    case False
    then show ?thesis by simp
  next
    case True
    obtain l ls where r: "split_lines s = l # ls"
      using split_lines_not_Nil by (cases "split_lines s") auto
    show ?thesis
    proof (cases "c = CHR 0x0A")
      case True
      with \<open>isWhiteSpace c\<close> Cons.IH assms show ?thesis by (simp add: trim_Nil)
    next
      case False
      with \<open>isWhiteSpace c\<close> Cons.IH r show ?thesis by (simp add: trim_Cons_space)
    qed
  qed
qed

lemma split_lines_snoc:
  "split_lines (s @ [c]) =
     (if c = CHR 0x0A then split_lines s @ [[]]
      else butlast (split_lines s) @ [last (split_lines s) @ [c]])"
proof (induction s)
  case Nil
  then show ?case by simp
next
  case (Cons a s)
  obtain l ls where r: "split_lines s = l # ls"
    using split_lines_not_Nil by (cases "split_lines s") auto
  with Cons.IH show ?case by (cases ls) auto
qed

lemma lines_snoc_space:
  assumes "\<not> P []" and "isWhiteSpace c"
  shows "filter P (map trim (split_lines (s @ [c]))) = filter P (map trim (split_lines s))"
proof (cases "c = CHR 0x0A")
  case True
  with assms show ?thesis by (simp add: split_lines_snoc trim_Nil)
next
  case False
  have ne: "split_lines s \<noteq> []" by (rule split_lines_not_Nil)
  have "map trim (butlast (split_lines s) @ [last (split_lines s) @ [c]])
        = map trim (butlast (split_lines s) @ [last (split_lines s)])"
    using assms(2) by (simp add: trim_snoc_space)
  also have "\<dots> = map trim (split_lines s)" using ne by simp
  finally show ?thesis using False by (simp add: split_lines_snoc)
qed

lemma lines_dropWhile_back:
  assumes "\<not> P []"
  shows "filter P (map trim (split_lines (rev (dropWhile isWhiteSpace (rev s))))) = filter P (map trim (split_lines s))"
proof (induction s rule: rev_induct)
  case Nil
  then show ?case by simp
next
  case (snoc c s)
  show ?case
  proof (cases "isWhiteSpace c")
    case True
    with snoc.IH lines_snoc_space [where P = P, OF assms True] show ?thesis by simp
  next
    case False
    then show ?thesis by simp
  qed
qed

lemma lines_trim:
  assumes "\<not> P []"
  shows "filter P (map trim (split_lines (trim s))) = filter P (map trim (split_lines s))"
  unfolding trim_def [of s]
  by (simp only: lines_dropWhile_back [where P = P, OF assms] lines_dropWhile_front [where P = P, OF assms])

lemma all_less_by_list: "list_all P [0..<n] \<Longrightarrow> \<forall>i<n. P i"
  by (simp add: list_all_iff)

lemma validateInput_valid:
  assumes "content i = Some c" and "\<not> list_all isWhiteSpace c"
  shows "validateInput e this (Some i) w = (True, w)"
proof -
  from assms(2) have "trim c \<noteq> []" by (simp add: trim_empty_iff)
  moreover from assms(2) have "c \<noteq> []" by auto
  ultimately show ?thesis using assms(1) by (simp add: validateInput_def)
qed

lemma parsed_report_parseResults: "parsed_report (parseResults this completion) = completion"
  by (simp add: parseResults_def parseCompletion_def Let_def)

lemma new_Date_ai_calls [simp]: "ai_calls (snd (new_Date e w)) = ai_calls w"
  by (simp add: new_Date_def)

lemma new_uuid_ai_calls [simp]: "ai_calls (snd (new_uuid e w)) = ai_calls w"
  by (simp add: new_uuid_def)

lemma preparePrompt_ai_calls: "ai_calls (snd (preparePrompt e this i opts w)) = ai_calls w"
  by (cases "prompt_form this")
     (simp_all add: preparePrompt_def preparePrompt_plain_def preparePrompt_audience_def
        preparePrompt_trace_def Let_def split_beta)

lemma preparePrompt_longer:
  "length (str_or (Option.bind opts customPrompt) (getDefaultPrompt this))
     < length (fst (preparePrompt e this i opts w))"
  by (cases "prompt_form this")
     (simp_all add: preparePrompt_def preparePrompt_plain_def preparePrompt_audience_def
        preparePrompt_trace_def Let_def split_beta newline_def)

lemma generateCompletion_Inr:
  assumes "generateCompletion e prompt aiOptions w = (Inr completion, w')"
  shows "\<exists>request. ai_calls w' = ai_calls w @ [request] \<and> messages request = [(''user'', prompt)]"
  using assms
  by (auto simp: generateCompletion_def Let_def split: sum.splits)

lemma generateCompletion_calls:
  "\<exists>request. ai_calls (snd (generateCompletion e prompt aiOptions w)) = ai_calls w @ [request]
      \<and> messages request = [(''user'', prompt)]"
  by (auto simp: generateCompletion_def Let_def split: sum.splits)

lemma createMetadata_promptUsed:
  "promptUsed (fst (createMetadata e this opts w)) =
     str_or (Option.bind opts customPrompt) (getDefaultPrompt this)"
  by (simp add: createMetadata_def Let_def split_beta)

lemma process_invalid_eq:
  assumes "input = None \<or> (\<exists>i. input = Some i \<and> (content i = None \<or> (\<exists>c. content i = Some c \<and> list_all isWhiteSpace c)))"
  shows "\<exists>md w'. process e this input opts w =
           (Inr \<lparr>moduleId = class_moduleId this, status = Error,
                 report = ''Invalid input: content is required'',
                 recommendedFixes = Some [invalid_input_fix this], metadata = md\<rparr>, w')
           \<and> ai_calls w' = ai_calls w"
  unfolding process_def validateInput_invalid [OF assms]
  by (simp add: createResult_Some split_beta Let_def)

lemma process_valid_eq:
  assumes "content i = Some c" and "\<not> list_all isWhiteSpace c"
  shows "process e this (Some i) opts w =
     (let w2 = logger_info e (class_moduleId this) (start_message this) w;
          (prompt, w3) = preparePrompt e this i opts w2;
          aiOptions = convertModuleOptionsToAIOptions opts
      in case generateCompletion e prompt aiOptions w3 of
           (Inr completion, w4) \<Rightarrow>
             (let parsed = parseResults this completion;
                  w5 = logger_info e (class_moduleId this)
                         (completed_message this @ status_text (parsed_status parsed)) w4;
                  (md, w6) = createMetadata e this opts w5
              in (Inr \<lparr>moduleId = class_moduleId this, status = parsed_status parsed,
                       report = completion,
                       recommendedFixes = (case parsed_fixes parsed of [] \<Rightarrow> None | f # fs \<Rightarrow> Some (f # fs)),
                       metadata = md\<rparr>,
                  logger_info e (class_moduleId this)
                    (''Module processing completed with status: '' @ status_text (parsed_status parsed)) w6))
         | (Inl err, w4) \<Rightarrow>
             (let w5 = logger_error e (class_moduleId this) (error_message this) (Some err) w4;
                  (md, w6) = createMetadata e this opts w5
              in (Inr \<lparr>moduleId = class_moduleId this, status = Error,
                       report = error_message this @ '': '' @ exn_message err,
                       recommendedFixes = Some [retry_fix this, ''Check API connectivity''],
                       metadata = md\<rparr>,
                  logger_info e (class_moduleId this)
                    (''Module processing completed with status: '' @ status_text Error) w6)))"
  unfolding process_def validateInput_valid [OF assms]
  by (simp add: createResult_Some split_beta Let_def parsed_report_parseResults
        split: sum.splits prod.splits list.splits)

lemma process_success:
  assumes "content i = Some c" and "\<not> list_all isWhiteSpace c"
    and pp: "preparePrompt e this i opts (logger_info e (class_moduleId this) (start_message this) w) = (prompt, w3)"
    and gc: "generateCompletion e prompt (convertModuleOptionsToAIOptions opts) w3 = (Inr completion, w4)"
  shows "\<exists>r w' request. process e this (Some i) opts w = (Inr r, w')
          \<and> report r = completion
          \<and> status r = parsed_status (parseResults this completion)
          \<and> recommendedFixes r = (case parsed_fixes (parseResults this completion) of [] \<Rightarrow> None | f # fs \<Rightarrow> Some (f # fs))
          \<and> promptUsed (metadata r) = str_or (Option.bind opts customPrompt) (getDefaultPrompt this)
          \<and> ai_calls w' = ai_calls w @ [request] \<and> messages request = [(''user'', prompt)]
          \<and> prompt \<noteq> promptUsed (metadata r)"
proof -
  from generateCompletion_Inr [OF gc] obtain request
    where req: "ai_calls w4 = ai_calls w3 @ [request]" "messages request = [(''user'', prompt)]"
    by blast
  from pp have w3: "ai_calls w3 = ai_calls w"
    using preparePrompt_ai_calls [of e this i opts "logger_info e (class_moduleId this) (start_message this) w"]
    by simp
  from pp have "length (str_or (Option.bind opts customPrompt) (getDefaultPrompt this)) < length prompt"
    using preparePrompt_longer [of opts this e i "logger_info e (class_moduleId this) (start_message this) w"]
    by simp
  then have neq: "prompt \<noteq> str_or (Option.bind opts customPrompt) (getDefaultPrompt this)" by auto
  show ?thesis
    unfolding process_valid_eq [OF assms(1,2)]
    using pp gc req w3 neq
    by (simp add: Let_def split_beta createMetadata_promptUsed)
qed

lemma createResult_fixes:
  "recommendedFixes (fst (createResult e this st rep given md w)) =
     (case given of Some (f # fs) \<Rightarrow> Some (f # fs) | _ \<Rightarrow> None)"
  by (simp add: createResult_def Let_def split_beta split: option.splits list.splits)

lemma mock_result_status [simp]: "status (mock_result mid st) = st"
  by (simp add: mock_result_def)




lemma parseFactCheckResults_eq:
  "parseFactCheckResults =
     parseCompletion ''OVERALL_ASSESSMENT:'' ''PASS'' ''PASS_WITH_WARNINGS'' ''FAIL''
       ''RECOMMENDATIONS:'' [''OVERALL_ASSESSMENT:'']"
  by (rule ext) (simp add: parseFactCheckResults_def parseResults_def FactCheckLayer_def)


lemma process_failure:
  assumes "content i = Some c" and "\<not> list_all isWhiteSpace c"
    and pp: "preparePrompt e this i opts (logger_info e (class_moduleId this) (start_message this) w) = (prompt, w3)"
    and gc: "generateCompletion e prompt (convertModuleOptionsToAIOptions opts) w3 = (Inl err, w4)"
  shows "\<exists>r w'. process e this (Some i) opts w = (Inr r, w')
          \<and> status r = Error
          \<and> report r = error_message this @ '': '' @ exn_message err
          \<and> recommendedFixes r = Some [retry_fix this, ''Check API connectivity'']"
  unfolding process_valid_eq [OF assms(1,2)]
  using pp gc by (simp add: Let_def split_beta)

lemma parseResults_FactCheckLayer:
  "parseResults FactCheckLayer =
     parseCompletion ''OVERALL_ASSESSMENT:'' ''PASS'' ''PASS_WITH_WARNINGS'' ''FAIL''
       ''RECOMMENDATIONS:'' [''OVERALL_ASSESSMENT:'']"
  by (rule ext) (simp add: parseResults_def FactCheckLayer_def)
section \<open>The module contract\<close>

text \<open>
  C4. When the input is missing, or its content is missing, empty or made of white space
  only, \<open>process\<close> of every module class returns a result with status \<open>Error\<close> whose
  report begins with \<^verbatim>\<open>Invalid input\<close>, and the requests sent to the provider are the
  ones sent before: \<open>generateCompletion\<close> is not called. The theorem holds for every
  value of \<open>module_class\<close>, so for each of the ten classes.
\<close>

theorem invalid_input_is_error_without_provider_call:
  assumes "input = None \<or> (\<exists>i. input = Some i \<and>
             (content i = None \<or> (\<exists>c. content i = Some c \<and> list_all isWhiteSpace c)))"
  shows "(\<exists>r. fst (process e this input opts w) = Inr r \<and> status r = Error
              \<and> startsWith (report r) ''Invalid input'')
         \<and> ai_calls (snd (process e this input opts w)) = ai_calls w"
proof -
  from process_invalid_eq [OF assms, of e this opts w] obtain md w'
    where p: "process e this input opts w =
           (Inr \<lparr>moduleId = class_moduleId this, status = Error,
                 report = ''Invalid input: content is required'',
                 recommendedFixes = Some [invalid_input_fix this], metadata = md\<rparr>, w')"
      and c: "ai_calls w' = ai_calls w"
    by blast
  have "startsWith ''Invalid input: content is required'' ''Invalid input''"
    by (simp add: startsWith_def)
  with p c show ?thesis by simp
qed

text \<open>The theorem at FactCheckLayer and a content of a space, a tab and a line feed.\<close>

theorem invalid_input_is_error_without_provider_call_witness:
  "(\<exists>r. fst (process example_env FactCheckLayer (Some blank_input) None empty_world) = Inr r
         \<and> status r = Error \<and> startsWith (report r) ''Invalid input'')
   \<and> ai_calls (snd (process example_env FactCheckLayer (Some blank_input) None empty_world))
       = ai_calls empty_world"
proof -
  have h: "Some blank_input = None \<or> (\<exists>i. Some blank_input = Some i \<and>
             (content i = None \<or> (\<exists>c. content i = Some c \<and> list_all isWhiteSpace c)))"
    by (simp add: blank_input_def isWhiteSpace_def)
  show ?thesis by (rule invalid_input_is_error_without_provider_call [OF h])
qed

text \<open>
  C9, as stated, fails in its second half. With the custom prompt
  \<^verbatim>\<open>Check the facts.\<close> the field \<open>promptUsed\<close> holds that text, while the prompt
  sent to the provider is the text composed by \<open>preparePrompt\<close>, which wraps it with
  the content block.
\<close>

theorem promptUsed_is_not_the_prompt_sent:
  "promptUsed (metadata (projr (fst (process example_env FactCheckLayer (Some example_input)
       (Some custom_options) empty_world)))) = ''Check the facts.''
   \<and> snd (hd (messages (last (ai_calls (snd (process example_env FactCheckLayer (Some example_input)
       (Some custom_options) empty_world))))))
     \<noteq> promptUsed (metadata (projr (fst (process example_env FactCheckLayer (Some example_input)
       (Some custom_options) empty_world))))"
proof -
  have c: "content example_input = Some ''Some text.''" by (simp add: example_input_def)
  have n: "\<not> list_all isWhiteSpace ''Some text.''" by (simp add: isWhiteSpace_def)
  obtain prompt w3 where pp: "preparePrompt example_env FactCheckLayer example_input (Some custom_options)
       (logger_info example_env (class_moduleId FactCheckLayer) (start_message FactCheckLayer) empty_world)
        = (prompt, w3)"
    by (cases "preparePrompt example_env FactCheckLayer example_input (Some custom_options)
       (logger_info example_env (class_moduleId FactCheckLayer) (start_message FactCheckLayer) empty_world)")
  obtain w4 where gc: "generateCompletion example_env prompt
       (convertModuleOptionsToAIOptions (Some custom_options)) w3 = (Inr ''OVERALL_ASSESSMENT: PASS'', w4)"
    by (simp add: generateCompletion_def example_env_def Let_def str_or_def)
  from process_success [OF c n pp gc] obtain r w' request
    where p: "process example_env FactCheckLayer (Some example_input) (Some custom_options) empty_world = (Inr r, w')"
      and u: "promptUsed (metadata r) = str_or (Option.bind (Some custom_options) customPrompt) (getDefaultPrompt FactCheckLayer)"
      and a: "ai_calls w' = ai_calls empty_world @ [request]"
      and m: "messages request = [(''user'', prompt)]"
      and d: "prompt \<noteq> promptUsed (metadata r)"
    by blast
  have "str_or (Option.bind (Some custom_options) customPrompt) (getDefaultPrompt FactCheckLayer) = ''Check the facts.''"
    by (simp add: custom_options_def str_or_def)
  with p u a m d show ?thesis by simp
qed

text \<open>
  C9, amended. When the input is valid and \<open>generateCompletion\<close> returns a completion,
  the result keeps the completion verbatim as its report; \<open>promptUsed\<close> records the
  custom prompt when one is given and is not empty, and the default prompt of the class
  otherwise; the provider has received one more request, whose message is the prompt
  composed by \<open>preparePrompt\<close>; and the composed prompt is never the recorded one.
\<close>

theorem successful_invocation_report_and_promptUsed:
  assumes "content i = Some c" and "\<not> list_all isWhiteSpace c"
    and "preparePrompt e this i opts (logger_info e (class_moduleId this) (start_message this) w) = (prompt, w3)"
    and "generateCompletion e prompt (convertModuleOptionsToAIOptions opts) w3 = (Inr completion, w4)"
  shows "\<exists>r w' request. process e this (Some i) opts w = (Inr r, w')
          \<and> report r = completion
          \<and> promptUsed (metadata r) = str_or (Option.bind opts customPrompt) (getDefaultPrompt this)
          \<and> ai_calls w' = ai_calls w @ [request] \<and> messages request = [(''user'', prompt)]
          \<and> prompt \<noteq> promptUsed (metadata r)"
  using process_success [OF assms] by blast

text \<open>The theorem at FactCheckLayer, the example input, no options and the example provider.\<close>

theorem successful_invocation_report_and_promptUsed_witness:
  "\<exists>r w' request. process example_env FactCheckLayer (Some example_input) None empty_world = (Inr r, w')
      \<and> report r = ''OVERALL_ASSESSMENT: PASS''
      \<and> promptUsed (metadata r) =
            str_or (Option.bind (None :: ModuleOptions option) customPrompt) (getDefaultPrompt FactCheckLayer)
      \<and> ai_calls w' = ai_calls empty_world @ [request]
      \<and> messages request = [(''user'', fst (preparePrompt example_env FactCheckLayer example_input None
            (logger_info example_env (class_moduleId FactCheckLayer) (start_message FactCheckLayer) empty_world)))]
      \<and> fst (preparePrompt example_env FactCheckLayer example_input None
            (logger_info example_env (class_moduleId FactCheckLayer) (start_message FactCheckLayer) empty_world))
          \<noteq> promptUsed (metadata r)"
proof -
  have c: "content example_input = Some ''Some text.''" by (simp add: example_input_def)
  have n: "\<not> list_all isWhiteSpace ''Some text.''" by (simp add: isWhiteSpace_def)
  have pp: "preparePrompt example_env FactCheckLayer example_input None
       (logger_info example_env (class_moduleId FactCheckLayer) (start_message FactCheckLayer) empty_world)
        = (fst (preparePrompt example_env FactCheckLayer example_input None
            (logger_info example_env (class_moduleId FactCheckLayer) (start_message FactCheckLayer) empty_world)),
           snd (preparePrompt example_env FactCheckLayer example_input None
            (logger_info example_env (class_moduleId FactCheckLayer) (start_message FactCheckLayer) empty_world)))"
    by simp
  obtain w4 where gc: "generateCompletion example_env
       (fst (preparePrompt example_env FactCheckLayer example_input None
            (logger_info example_env (class_moduleId FactCheckLayer) (start_message FactCheckLayer) empty_world)))
       (convertModuleOptionsToAIOptions None)
       (snd (preparePrompt example_env FactCheckLayer example_input None
            (logger_info example_env (class_moduleId FactCheckLayer) (start_message FactCheckLayer) empty_world)))
       = (Inr ''OVERALL_ASSESSMENT: PASS'', w4)"
    by (simp add: generateCompletion_def example_env_def Let_def str_or_def)
  show ?thesis
    by (rule successful_invocation_report_and_promptUsed [OF c n pp gc])
qed

text \<open>
  C10. An invocation of \<open>process\<close> takes one of three paths, and on each the field
  \<open>recommendedFixes\<close> of the returned result is tied to the list of that path. When the
  input is valid and the provider answers, the list is the one extracted from the completion
  (which is the report): the field is absent when that list is empty and holds that list
  otherwise. When the input is valid and the provider fails, and when the input is not
  valid, a list is supplied that is not empty, and the field holds it. So the field is
  absent exactly when the extracted list is empty, and it is never an empty list.
\<close>

theorem recommendedFixes_absent_iff_no_fix:
  "(content i = Some c \<and> \<not> list_all isWhiteSpace c
      \<and> preparePrompt e this i opts (logger_info e (class_moduleId this) (start_message this) w) = (prompt, w3)
      \<and> generateCompletion e prompt (convertModuleOptionsToAIOptions opts) w3 = (Inr completion, w4) \<longrightarrow>
      (\<exists>r. fst (process e this (Some i) opts w) = Inr r \<and> report r = completion
         \<and> recommendedFixes r =
             (if parsed_fixes (parseResults this completion) = [] then None
              else Some (parsed_fixes (parseResults this completion)))))
   \<and> (content i = Some c \<and> \<not> list_all isWhiteSpace c
      \<and> preparePrompt e this i opts (logger_info e (class_moduleId this) (start_message this) w) = (prompt, w3)
      \<and> generateCompletion e prompt (convertModuleOptionsToAIOptions opts) w3 = (Inl err, w4) \<longrightarrow>
      (\<exists>r. fst (process e this (Some i) opts w) = Inr r
         \<and> recommendedFixes r = Some [retry_fix this, ''Check API connectivity'']))
   \<and> (input = None \<or> (\<exists>j. input = Some j \<and>
             (content j = None \<or> (\<exists>d. content j = Some d \<and> list_all isWhiteSpace d))) \<longrightarrow>
      (\<exists>r. fst (process e this input opts w) = Inr r
         \<and> recommendedFixes r = Some [invalid_input_fix this]))"
proof (intro conjI impI)
  assume h: "content i = Some c \<and> \<not> list_all isWhiteSpace c
      \<and> preparePrompt e this i opts (logger_info e (class_moduleId this) (start_message this) w) = (prompt, w3)
      \<and> generateCompletion e prompt (convertModuleOptionsToAIOptions opts) w3 = (Inr completion, w4)"
  then have h1: "content i = Some c" and h2: "\<not> list_all isWhiteSpace c"
    and h3: "preparePrompt e this i opts (logger_info e (class_moduleId this) (start_message this) w) = (prompt, w3)"
    and h4: "generateCompletion e prompt (convertModuleOptionsToAIOptions opts) w3 = (Inr completion, w4)"
    by simp_all
  from process_success [OF h1 h2 h3 h4] obtain r w'
    where p: "process e this (Some i) opts w = (Inr r, w')" and rep: "report r = completion"
      and f: "recommendedFixes r = (case parsed_fixes (parseResults this completion) of
                                      [] \<Rightarrow> None | f # fs \<Rightarrow> Some (f # fs))"
    by blast
  from f have "recommendedFixes r =
             (if parsed_fixes (parseResults this completion) = [] then None
              else Some (parsed_fixes (parseResults this completion)))"
    by (cases "parsed_fixes (parseResults this completion)") simp_all
  with p rep show "\<exists>r. fst (process e this (Some i) opts w) = Inr r \<and> report r = completion
         \<and> recommendedFixes r =
             (if parsed_fixes (parseResults this completion) = [] then None
              else Some (parsed_fixes (parseResults this completion)))"
    by simp
next
  assume h: "content i = Some c \<and> \<not> list_all isWhiteSpace c
      \<and> preparePrompt e this i opts (logger_info e (class_moduleId this) (start_message this) w) = (prompt, w3)
      \<and> generateCompletion e prompt (convertModuleOptionsToAIOptions opts) w3 = (Inl err, w4)"
  then have h1: "content i = Some c" and h2: "\<not> list_all isWhiteSpace c"
    and h3: "preparePrompt e this i opts (logger_info e (class_moduleId this) (start_message this) w) = (prompt, w3)"
    and h4: "generateCompletion e prompt (convertModuleOptionsToAIOptions opts) w3 = (Inl err, w4)"
    by simp_all
  from process_failure [OF h1 h2 h3 h4] obtain r w'
    where "process e this (Some i) opts w = (Inr r, w')"
      and "recommendedFixes r = Some [retry_fix this, ''Check API connectivity'']"
    by blast
  then show "\<exists>r. fst (process e this (Some i) opts w) = Inr r
         \<and> recommendedFixes r = Some [retry_fix this, ''Check API connectivity'']"
    by simp
next
  assume h: "input = None \<or> (\<exists>j. input = Some j \<and>
             (content j = None \<or> (\<exists>d. content j = Some d \<and> list_all isWhiteSpace d)))"
  from process_invalid_eq [OF h, of e this opts w] obtain md w'
    where "process e this input opts w =
           (Inr \<lparr>moduleId = class_moduleId this, status = Error,
                 report = ''Invalid input: content is required'',
                 recommendedFixes = Some [invalid_input_fix this], metadata = md\<rparr>, w')"
    by blast
  then show "\<exists>r. fst (process e this input opts w) = Inr r
         \<and> recommendedFixes r = Some [invalid_input_fix this]"
    by simp
qed

text \<open>
  The theorem at FactCheckLayer on each path: a completion with no recommendations section
  (the field is absent), a completion with a section of one line (the field holds that
  line), a provider that fails, and a content of white space only.
\<close>

theorem recommendedFixes_absent_iff_no_fix_witness:
  "recommendedFixes (projr (fst (process example_env FactCheckLayer (Some example_input) None empty_world)))
     = None
   \<and> recommendedFixes (projr (fst (process advising_env FactCheckLayer (Some example_input) None empty_world)))
     = Some [''1. Cite a source'']
   \<and> recommendedFixes (projr (fst (process failing_env FactCheckLayer (Some example_input) None empty_world)))
     = Some [''Retry the fact checking process'', ''Check API connectivity'']
   \<and> recommendedFixes (projr (fst (process example_env FactCheckLayer (Some blank_input) None empty_world)))
     = Some [''Provide non-empty content for fact checking'']"
proof -
  have c: "content example_input = Some ''Some text.''" by (simp add: example_input_def)
  have n: "\<not> list_all isWhiteSpace ''Some text.''" by (simp add: isWhiteSpace_def)
  have e1: "parsed_fixes (parseResults FactCheckLayer ''OVERALL_ASSESSMENT: PASS'') = []"
    unfolding parseResults_FactCheckLayer by code_simp
  have e2: "parsed_fixes (parseResults FactCheckLayer
               (''RECOMMENDATIONS:'' @ [CHR 0x0A] @ ''1. Cite a source'' @ [CHR 0x0A]
                   @ ''OVERALL_ASSESSMENT: PASS'')) = [''1. Cite a source'']"
    unfolding parseResults_FactCheckLayer by code_simp
  have f1: "retry_fix FactCheckLayer = ''Retry the fact checking process''"
    and f2: "invalid_input_fix FactCheckLayer = ''Provide non-empty content for fact checking''"
    by (simp_all add: FactCheckLayer_def)
  have a: "recommendedFixes (projr (fst (process example_env FactCheckLayer (Some example_input) None empty_world))) = None"
  proof -
    obtain prompt w3 where pp: "preparePrompt example_env FactCheckLayer example_input None
         (logger_info example_env (class_moduleId FactCheckLayer) (start_message FactCheckLayer) empty_world) = (prompt, w3)"
      by (cases "preparePrompt example_env FactCheckLayer example_input None
         (logger_info example_env (class_moduleId FactCheckLayer) (start_message FactCheckLayer) empty_world)")
    obtain w4 where gc: "generateCompletion example_env prompt (convertModuleOptionsToAIOptions None) w3
         = (Inr ''OVERALL_ASSESSMENT: PASS'', w4)"
      by (simp add: generateCompletion_def example_env_def Let_def str_or_def)
    from recommendedFixes_absent_iff_no_fix
      [of example_input "''Some text.''" example_env FactCheckLayer None empty_world prompt w3
          "''OVERALL_ASSESSMENT: PASS''" w4]
      c n pp gc
    obtain r where "fst (process example_env FactCheckLayer (Some example_input) None empty_world) = Inr r"
      and "recommendedFixes r =
             (if parsed_fixes (parseResults FactCheckLayer ''OVERALL_ASSESSMENT: PASS'') = [] then None
              else Some (parsed_fixes (parseResults FactCheckLayer ''OVERALL_ASSESSMENT: PASS'')))"
      by blast
    then show ?thesis by (simp add: e1)
  qed
  have b: "recommendedFixes (projr (fst (process advising_env FactCheckLayer (Some example_input) None empty_world)))
     = Some [''1. Cite a source'']"
  proof -
    obtain prompt w3 where pp: "preparePrompt advising_env FactCheckLayer example_input None
         (logger_info advising_env (class_moduleId FactCheckLayer) (start_message FactCheckLayer) empty_world) = (prompt, w3)"
      by (cases "preparePrompt advising_env FactCheckLayer example_input None
         (logger_info advising_env (class_moduleId FactCheckLayer) (start_message FactCheckLayer) empty_world)")
    obtain w4 where gc: "generateCompletion advising_env prompt (convertModuleOptionsToAIOptions None) w3
         = (Inr (''RECOMMENDATIONS:'' @ [CHR 0x0A] @ ''1. Cite a source'' @ [CHR 0x0A]
                   @ ''OVERALL_ASSESSMENT: PASS''), w4)"
      by (simp add: generateCompletion_def advising_env_def Let_def str_or_def)
    from recommendedFixes_absent_iff_no_fix
      [of example_input "''Some text.''" advising_env FactCheckLayer None empty_world prompt w3
          "''RECOMMENDATIONS:'' @ [CHR 0x0A] @ ''1. Cite a source'' @ [CHR 0x0A] @ ''OVERALL_ASSESSMENT: PASS''" w4]
      c n pp gc
    obtain r where "fst (process advising_env FactCheckLayer (Some example_input) None empty_world) = Inr r"
      and "recommendedFixes r =
             (if parsed_fixes (parseResults FactCheckLayer
                   (''RECOMMENDATIONS:'' @ [CHR 0x0A] @ ''1. Cite a source'' @ [CHR 0x0A] @ ''OVERALL_ASSESSMENT: PASS'')) = [] then None
              else Some (parsed_fixes (parseResults FactCheckLayer
                   (''RECOMMENDATIONS:'' @ [CHR 0x0A] @ ''1. Cite a source'' @ [CHR 0x0A] @ ''OVERALL_ASSESSMENT: PASS''))))"
      by blast
    then show ?thesis by (simp only: e2) simp
  qed
  have d: "recommendedFixes (projr (fst (process failing_env FactCheckLayer (Some example_input) None empty_world)))
     = Some [''Retry the fact checking process'', ''Check API connectivity'']"
  proof -
    obtain prompt w3 where pp: "preparePrompt failing_env FactCheckLayer example_input None
         (logger_info failing_env (class_moduleId FactCheckLayer) (start_message FactCheckLayer) empty_world) = (prompt, w3)"
      by (cases "preparePrompt failing_env FactCheckLayer example_input None
         (logger_info failing_env (class_moduleId FactCheckLayer) (start_message FactCheckLayer) empty_world)")
    obtain err w4 where gc: "generateCompletion failing_env prompt (convertModuleOptionsToAIOptions None) w3
         = (Inl err, w4)"
      by (simp add: generateCompletion_def failing_env_def Let_def)
    from recommendedFixes_absent_iff_no_fix
      [of example_input "''Some text.''" failing_env FactCheckLayer None empty_world prompt w3 _ w4 err]
      c n pp gc
    obtain r where "fst (process failing_env FactCheckLayer (Some example_input) None empty_world) = Inr r"
      and "recommendedFixes r = Some [retry_fix FactCheckLayer, ''Check API connectivity'']"
      by blast
    then show ?thesis by (simp add: f1)
  qed
  have g: "recommendedFixes (projr (fst (process example_env FactCheckLayer (Some blank_input) None empty_world)))
     = Some [''Provide non-empty content for fact checking'']"
  proof -
    have h: "Some blank_input = None \<or> (\<exists>j. Some blank_input = Some j \<and>
             (content j = None \<or> (\<exists>d. content j = Some d \<and> list_all isWhiteSpace d)))"
      by (simp add: blank_input_def isWhiteSpace_def)
    from recommendedFixes_absent_iff_no_fix
      [of _ _ example_env FactCheckLayer None empty_world _ _ _ _ _ "Some blank_input"] h
    obtain r where "fst (process example_env FactCheckLayer (Some blank_input) None empty_world) = Inr r"
      and "recommendedFixes r = Some [invalid_input_fix FactCheckLayer]"
      by blast
    then show ?thesis by (simp add: f2)
  qed
  from a b d g show ?thesis by (intro conjI)
qed

section \<open>The controller\<close>

text \<open>
  C3. \<open>runModule\<close> throws exactly when the id is not registered, and then the message
  of the exception names the id. For a registered module it returns a result: the result of
  \<^verbatim>\<open>process\<close> when there is one, and, when \<^verbatim>\<open>process\<close> throws, a result for the
  requested id with status \<open>Error\<close> whose report is \<^verbatim>\<open>Error running module: \<close>
  followed by the message of the exception. The world in which \<^verbatim>\<open>process\<close> is called is
  the one after the log entry \<^verbatim>\<open>Running module ...\<close>.
\<close>

theorem runModule_throws_iff_unregistered:
  "(reg mid = None \<longrightarrow>
      fst (runModule e reg mid input opts w) = Inl (ErrorObject (''Module '' @ mid @ '' not found'')))
   \<and> (\<forall>m. reg mid = Some m \<longrightarrow>
        (\<exists>r. fst (runModule e reg mid input opts w) = Inr r)
        \<and> (\<forall>err w1. module_process m input opts
                        (logger_info e ''ContentGuardianController'' (''Running module '' @ mid) w) = (Inl err, w1) \<longrightarrow>
              (\<exists>r. fst (runModule e reg mid input opts w) = Inr r \<and> moduleId r = mid \<and> status r = Error
                   \<and> report r = ''Error running module: '' @ exn_message err))
        \<and> (\<forall>r w1. module_process m input opts
                        (logger_info e ''ContentGuardianController'' (''Running module '' @ mid) w) = (Inr r, w1) \<longrightarrow>
              fst (runModule e reg mid input opts w) = Inr r))"
  by (auto simp: runModule_def Let_def split_beta split: prod.splits sum.splits)

text \<open>
  The theorem at an id that is not registered, at a module whose \<^verbatim>\<open>process\<close> throws
  \<^verbatim>\<open>new Error('boom')\<close>, and at a module that returns a result.
\<close>

theorem runModule_throws_iff_unregistered_witness:
  "fst (runModule example_env mock_registry ''DoesNotExist'' (Some example_input) None empty_world)
     = Inl (ErrorObject ''Module DoesNotExist not found'')
   \<and> (\<exists>r. fst (runModule example_env mock_registry ''Thrower'' (Some example_input) None empty_world) = Inr r
          \<and> moduleId r = ''Thrower'' \<and> status r = Error \<and> report r = ''Error running module: boom'')
   \<and> fst (runModule example_env mock_registry ''EthicalGuardian'' (Some example_input) None empty_world)
     = Inr (mock_result ''EthicalGuardian'' Success)"
  using runModule_throws_iff_unregistered [of mock_registry "''DoesNotExist''" example_env "Some example_input" None empty_world]
        runModule_throws_iff_unregistered [of mock_registry "''Thrower''" example_env "Some example_input" None empty_world]
        runModule_throws_iff_unregistered [of mock_registry "''EthicalGuardian''" example_env "Some example_input" None empty_world]
  by (simp add: mock_registry_def throwing_module_def mock_module_def)







text \<open>
  C8: the program at the failing input. In the sequential mode without \<open>stopOnError\<close>
  (missing or false), the exception of \<open>runModule\<close> for an id that is not registered is
  logged and the running status is left as it is: the workflow ends with status
  \<open>Success\<close> and no result.
\<close>

theorem missing_module_without_stopOnError_reports_success:
  "workflow_status (fst (fst (runWorkflow example_env mock_registry (Some example_input)
       (workflow_of [''DoesNotExist''] (Some True) None) empty_world))) = Success
   \<and> results (fst (fst (runWorkflow example_env mock_registry (Some example_input)
       (workflow_of [''DoesNotExist''] (Some True) None) empty_world))) = []
   \<and> workflow_status (fst (fst (runWorkflow example_env mock_registry (Some example_input)
       (workflow_of [''DoesNotExist''] (Some True) (Some False)) empty_world))) = Success"
  by (simp add: runWorkflow_def Let_def split_beta workflow_of_def truthy_def runModule_def
        mock_registry_def options_for_def)

text \<open>
  C7: the program at the failing input. A workflow whose \<open>sequential\<close> flag is missing
  takes the branch of the parallel mode: with a first id that is not registered it has no
  result and status \<open>Error\<close>, as with the flag set to false, where the sequential mode
  skips that id, runs the second module and has its result.
\<close>

theorem sequential_unset_runs_parallel:
  "results (fst (fst (runWorkflow example_env mock_registry (Some example_input)
       (workflow_of [''DoesNotExist'', ''EthicalGuardian''] None None) empty_world))) = []
   \<and> workflow_status (fst (fst (runWorkflow example_env mock_registry (Some example_input)
       (workflow_of [''DoesNotExist'', ''EthicalGuardian''] None None) empty_world))) = Error
   \<and> results (fst (fst (runWorkflow example_env mock_registry (Some example_input)
       (workflow_of [''DoesNotExist'', ''EthicalGuardian''] (Some True) None) empty_world)))
       = [mock_result ''EthicalGuardian'' Success]
   \<and> workflow_status (fst (fst (runWorkflow example_env mock_registry (Some example_input)
       (workflow_of [''DoesNotExist'', ''EthicalGuardian''] (Some True) None) empty_world))) = Success
   \<and> runWorkflow example_env mock_registry (Some example_input)
       (workflow_of [''DoesNotExist'', ''EthicalGuardian''] None None) empty_world
     = runWorkflow example_env mock_registry (Some example_input)
       (workflow_of [''DoesNotExist'', ''EthicalGuardian''] (Some False) None) empty_world"
  by (simp add: runWorkflow_def Let_def split_beta workflow_of_def truthy_def runModule_def
        mock_registry_def options_for_def run_parallel_def mock_module_def)
section \<open>Parsing the completion\<close>

text \<open>
  C5: the program at the failing input. For FactCheckLayer the group of the status
  expression is \<^verbatim>\<open>(PASS|PASS_WITH_WARNINGS|FAIL)\<close>; the alternatives are tried from
  left to right, so on \<^verbatim>\<open>PASS_WITH_WARNINGS\<close> the first one matches, the captured token
  is \<^verbatim>\<open>PASS\<close>, and the status is \<open>Success\<close>, not \<open>Warning\<close>.
\<close>

theorem pass_with_warnings_is_parsed_as_success:
  "parsed_status (parseFactCheckResults ''OVERALL_ASSESSMENT: PASS_WITH_WARNINGS'') = Success"
  unfolding parseFactCheckResults_eq by code_simp

text \<open>
  C6, as stated, fails. A line between the markers that itself begins with
  \<^verbatim>\<open>RECOMMENDATIONS:\<close> is filtered out: the extracted list is empty, whichever of the
  two occurrences is read as the marker. And a lower-case \<^verbatim>\<open>overall_assessment:\<close>
  between the markers ends the section, since the expression ignores case.
\<close>

theorem marker_line_dropped_and_lowercase_stop:
  "parsed_fixes (parseFactCheckResults
      (''RECOMMENDATIONS:'' @ [CHR 0x0A] @ ''RECOMMENDATIONS: Cite a source'' @ [CHR 0x0A]
       @ ''OVERALL_ASSESSMENT: PASS''))
     \<noteq> trimmed_nonempty_lines ([CHR 0x0A] @ ''RECOMMENDATIONS: Cite a source'' @ [CHR 0x0A])
   \<and> parsed_fixes (parseFactCheckResults
      (''RECOMMENDATIONS:'' @ [CHR 0x0A] @ ''RECOMMENDATIONS: Cite a source'' @ [CHR 0x0A]
       @ ''OVERALL_ASSESSMENT: PASS''))
     \<noteq> trimmed_nonempty_lines ('' Cite a source'' @ [CHR 0x0A])
   \<and> parsed_fixes (parseFactCheckResults
      (''RECOMMENDATIONS:'' @ lowercase_stop_example @ ''OVERALL_ASSESSMENT: PASS''))
     \<noteq> trimmed_nonempty_lines lowercase_stop_example"
  unfolding parseFactCheckResults_eq by code_simp

text \<open>
  C6, amended. Let the completion be \<open>pre @ m1 @ mid @ m2 @ post\<close>, where \<open>m1\<close> is
  the first occurrence of \<^verbatim>\<open>RECOMMENDATIONS:\<close> in any mix of upper and lower case and
  \<open>m2\<close> is the first occurrence after it of \<^verbatim>\<open>OVERALL_ASSESSMENT:\<close> in any mix of
  upper and lower case. Then the recommended fixes of FactCheckLayer are the trimmed,
  non-empty lines of \<open>mid\<close> that do not begin with \<^verbatim>\<open>RECOMMENDATIONS:\<close>, in their
  order.
\<close>

theorem recommendedFixes_between_first_markers:
  assumes m1: "toUpperCase m1 = ''RECOMMENDATIONS:''"
    and m2: "toUpperCase m2 = ''OVERALL_ASSESSMENT:''"
    and first1: "\<forall>i<length pre. \<not> ci_prefix ''RECOMMENDATIONS:'' (drop i (pre @ m1 @ mid @ m2 @ post))"
    and first2: "\<forall>i<length mid. \<not> ci_prefix ''OVERALL_ASSESSMENT:'' (drop i (mid @ m2 @ post))"
  shows "parsed_fixes (parseFactCheckResults (pre @ m1 @ mid @ m2 @ post)) =
         filter (\<lambda>line. \<not> startsWith line ''RECOMMENDATIONS:'') (trimmed_nonempty_lines mid)"
proof -
  have c1: "map canonicalize ''RECOMMENDATIONS:'' = ''RECOMMENDATIONS:''"
    by code_simp
  have c2: "map canonicalize ''OVERALL_ASSESSMENT:'' = ''OVERALL_ASSESSMENT:''"
    by code_simp
  have p1: "ci_prefix ''RECOMMENDATIONS:'' (m1 @ mid @ m2 @ post)"
    by (rule ci_prefix_append) (use m1 c1 in \<open>simp only: toUpperCase_def\<close>)
  have p2: "ci_prefix ''OVERALL_ASSESSMENT:'' (m2 @ post)"
    by (rule ci_prefix_append) (use m2 c2 in \<open>simp only: toUpperCase_def\<close>)
  have len1: "length m1 = length ''RECOMMENDATIONS:''"
    using m1 unfolding toUpperCase_def by (metis length_map)
  have sec: "match_section ''RECOMMENDATIONS:'' [''OVERALL_ASSESSMENT:''] (pre @ m1 @ mid @ m2 @ post)
             = Some (lazy_until [''OVERALL_ASSESSMENT:''] (drop (length ''RECOMMENDATIONS:'') (m1 @ mid @ m2 @ post)))"
    by (rule match_section_first [OF p1 first1])
  have dr: "drop (length ''RECOMMENDATIONS:'') (m1 @ mid @ m2 @ post) = mid @ m2 @ post"
    using len1 by simp
  have lz: "lazy_until [''OVERALL_ASSESSMENT:''] (mid @ m2 @ post) = mid"
    by (rule lazy_until_first [OF p2 first2])
  have "parsed_fixes (parseFactCheckResults (pre @ m1 @ mid @ m2 @ post)) =
        filter (\<lambda>line. 0 < length line \<and> \<not> startsWith line ''RECOMMENDATIONS:'')
          (map trim (split_lines (trim mid)))"
    unfolding parseFactCheckResults_eq parseCompletion_def Let_def
    by (simp only: sec dr lz option.case ParseResult.select_convs)
  also have "\<dots> = filter (\<lambda>line. 0 < length line \<and> \<not> startsWith line ''RECOMMENDATIONS:'')
          (map trim (split_lines mid))"
    by (rule lines_trim [where P = "\<lambda>line. 0 < length line \<and> \<not> startsWith line ''RECOMMENDATIONS:''"]) simp
  also have "\<dots> = filter (\<lambda>line. \<not> startsWith line ''RECOMMENDATIONS:'') (trimmed_nonempty_lines mid)"
    by (simp add: trimmed_nonempty_lines_def conj_commute)
  finally show ?thesis .
qed

text \<open>
  The theorem at a completion with a summary line, the marker written
  \<^verbatim>\<open>Recommendations:\<close>, two fixes with white space around them, a line that begins
  with the marker, and an empty line.
\<close>

theorem recommendedFixes_between_first_markers_witness:
  "parsed_fixes (parseFactCheckResults
     (markers_example_pre @ ''Recommendations:'' @ markers_example_mid @ ''OVERALL_ASSESSMENT:'' @ '' PASS''))
   = [''1. Cite a source'', ''2. Fix the date'']"
proof -
  have h1: "toUpperCase ''Recommendations:'' = ''RECOMMENDATIONS:''" by code_simp
  have h2: "toUpperCase ''OVERALL_ASSESSMENT:'' = ''OVERALL_ASSESSMENT:''" by code_simp
  have h3: "\<forall>i<length markers_example_pre. \<not> ci_prefix ''RECOMMENDATIONS:''
          (drop i (markers_example_pre @ ''Recommendations:'' @ markers_example_mid @ ''OVERALL_ASSESSMENT:'' @ '' PASS''))"
    by (rule all_less_by_list) code_simp
  have h4: "\<forall>i<length markers_example_mid. \<not> ci_prefix ''OVERALL_ASSESSMENT:''
          (drop i (markers_example_mid @ ''OVERALL_ASSESSMENT:'' @ '' PASS''))"
    by (rule all_less_by_list) code_simp
  have e: "filter (\<lambda>line. \<not> startsWith line ''RECOMMENDATIONS:'') (trimmed_nonempty_lines markers_example_mid)
             = [''1. Cite a source'', ''2. Fix the date'']"
    by code_simp
  from recommendedFixes_between_first_markers [OF h1 h2 h3 h4] show ?thesis
    unfolding e .
qed
end
